theory Spec2Isabelle
  imports Complex_Main "HOL-Library.Sublist"
begin

section \<open>Values of the program\<close>

text \<open>
  Backend/main.py is a FastAPI application over a MongoDB store and the Gemini
  function-calling API. The values it handles come out of \<^verbatim>\<open>response.json()\<close> and
  \<^verbatim>\<open>json.loads\<close>: \<^verbatim>\<open>None\<close>, booleans, unbounded integers, floats, strings,
  lists and dicts with string keys. One \<open>char\<close> stands for one character of a Python
  \<^verbatim>\<open>str\<close>. A float is the number it denotes, or one of the three special values.
  A dict is an association list that is looked up from the front.
\<close>

datatype pyfloat = Finite rat | PosInf | NegInf | NaN

datatype json =
    JNull
  | JBool bool
  | JInt int
  | JFloat pyfloat
  | JStr string
  | JArr "json list"
  | JObj "(string \<times> json) list"

text \<open>
  Exceptions are values. \<open>CancelledError\<close> and \<open>KeyboardInterrupt\<close> derive from
  \<^verbatim>\<open>BaseException\<close> only, so \<^verbatim>\<open>except Exception\<close> does not catch them.
\<close>

datatype error =
    KeyError
  | IndexError
  | TypeError
  | AttributeError
  | ValueError
  | OverflowError
  | JSONDecodeError
  | InvalidDocument
  | OperationFailure
  | ConnectError
  | TimeoutException
  | CancelledError
  | KeyboardInterrupt

fun is_Exception :: "error \<Rightarrow> bool" where
  "is_Exception CancelledError = False"
| "is_Exception KeyboardInterrupt = False"
| "is_Exception _ = True"

definition bnd :: "error + 'a \<Rightarrow> ('a \<Rightarrow> error + 'b) \<Rightarrow> error + 'b" where
  "bnd m f = (case m of Inl e \<Rightarrow> Inl e | Inr x \<Rightarrow> f x)"

subsection \<open>Subscripts, membership and \<^verbatim>\<open>dict.get\<close>\<close>

datatype key = KStr string | KInt int

text \<open>\<^verbatim>\<open>xs[i]\<close> on a list or a string: a negative index counts from the end.\<close>

definition seq_index :: "'a list \<Rightarrow> int \<Rightarrow> error + 'a" where
  "seq_index xs i =
     (if 0 \<le> i
      then (if nat i < length xs then Inr (xs ! nat i) else Inl IndexError)
      else (if nat (- i) \<le> length xs then Inr (xs ! (length xs - nat (- i)))
            else Inl IndexError))"

text \<open>\<^verbatim>\<open>v[k]\<close>. The keys of a dict that came out of JSON are strings.\<close>

fun py_getitem :: "json \<Rightarrow> key \<Rightarrow> error + json" where
  "py_getitem (JObj kvs) (KStr k) =
     (case map_of kvs k of None \<Rightarrow> Inl KeyError | Some v \<Rightarrow> Inr v)"
| "py_getitem (JObj kvs) (KInt i) = Inl KeyError"
| "py_getitem (JArr xs) (KInt i) = seq_index xs i"
| "py_getitem (JArr xs) (KStr k) = Inl TypeError"
| "py_getitem (JStr s) (KInt i) = bnd (seq_index s i) (\<lambda>c. Inr (JStr [c]))"
| "py_getitem (JStr s) (KStr k) = Inl TypeError"
| "py_getitem _ _ = Inl TypeError"

text \<open>
  \<^verbatim>\<open>k in v\<close> for a string \<open>k\<close>: a key of a dict, an element of a list, a substring
  of a string; anything else is not iterable.
\<close>

fun py_in :: "string \<Rightarrow> json \<Rightarrow> error + bool" where
  "py_in k (JObj kvs) = Inr (k \<in> set (map fst kvs))"
| "py_in k (JArr xs) = Inr (JStr k \<in> set xs)"
| "py_in k (JStr s) = Inr (sublist k s)"
| "py_in k _ = Inl TypeError"

text \<open>\<^verbatim>\<open>v.get(k, default)\<close>: only a dict has the method.\<close>

fun py_get :: "json \<Rightarrow> string \<Rightarrow> json \<Rightarrow> error + json" where
  "py_get (JObj kvs) k dflt =
     Inr (case map_of kvs k of None \<Rightarrow> dflt | Some v \<Rightarrow> v)"
| "py_get _ k dflt = Inl AttributeError"

subsection \<open>\<^verbatim>\<open>json.dumps\<close> and \<^verbatim>\<open>json.loads\<close>\<close>

text \<open>
  The resolver hands its action to \<^verbatim>\<open>chat\<close> as JSON text, which \<^verbatim>\<open>chat\<close> parses
  at once. The text is kept abstract: it is the value it encodes.
\<close>

datatype json_text = Dumped json

definition json_dumps :: "json \<Rightarrow> json_text" where
  "json_dumps v = Dumped v"

fun json_loads :: "json_text \<Rightarrow> json" where
  "json_loads (Dumped v) = v"

subsection \<open>\<^verbatim>\<open>int()\<close> and \<^verbatim>\<open>str()\<close>\<close>

text \<open>\<^verbatim>\<open>int(x)\<close> of a float rounds towards zero.\<close>

definition trunc :: "rat \<Rightarrow> int" where
  "trunc r = (if 0 \<le> r then \<lfloor>r\<rfloor> else \<lceil>r\<rceil>)"

definition is_digit :: "char \<Rightarrow> bool" where
  "is_digit c = (48 \<le> (of_char c :: nat) \<and> (of_char c :: nat) \<le> 57)"

definition decimal :: "string \<Rightarrow> int" where
  "decimal s = foldl (\<lambda>a c. 10 * a + int (of_char c - 48)) 0 s"

text \<open>
  \<^verbatim>\<open>int(s)\<close> of a string. Two cases are decided here: a string with no decimal
  digit is no integer literal (\<^verbatim>\<open>ValueError\<close>, the result \<open>None\<close>), and a string
  of one to 4300 decimal digits is the number it spells. Every other string
  (signs, surrounding blanks, underscores, longer literals) is left to \<open>ext\<close>, the
  interpreter's own conversion, which the functions below take as a parameter.
\<close>

definition int_of_str :: "(string \<Rightarrow> int option) \<Rightarrow> string \<Rightarrow> int option" where
  "int_of_str ext s =
     (if \<not> (\<exists>c \<in> set s. is_digit c) then None
      else if (\<forall>c \<in> set s. is_digit c) \<and> length s \<le> 4300 then Some (decimal s)
      else ext s)"

fun float_int :: "pyfloat \<Rightarrow> error + int" where
  "float_int (Finite r) = Inr (trunc r)"
| "float_int PosInf = Inl OverflowError"
| "float_int NegInf = Inl OverflowError"
| "float_int NaN = Inl ValueError"

fun py_int :: "(string \<Rightarrow> int option) \<Rightarrow> json \<Rightarrow> error + int" where
  "py_int ext (JInt n) = Inr n"
| "py_int ext (JBool b) = Inr (if b then 1 else 0)"
| "py_int ext (JFloat f) = float_int f"
| "py_int ext (JStr s) =
     (case int_of_str ext s of None \<Rightarrow> Inl ValueError | Some n \<Rightarrow> Inr n)"
| "py_int ext _ = Inl TypeError"

fun show_nat :: "nat \<Rightarrow> string" where
  "show_nat n =
     (if n < 10 then [char_of (48 + n)]
      else show_nat (n div 10) @ [char_of (48 + n mod 10)])"

definition show_int :: "int \<Rightarrow> string" where
  "show_int i = (if i < 0 then CHR ''-'' # show_nat (nat (- i)) else show_nat (nat i))"

text \<open>
  What an f-string puts in place of \<^verbatim>\<open>{v}\<close>. The text of a float, a list or a
  dict is the interpreter's \<^verbatim>\<open>repr\<close>, taken as the parameter \<open>repr\<close>.
\<close>

fun py_str :: "(json \<Rightarrow> string) \<Rightarrow> json \<Rightarrow> string" where
  "py_str repr (JStr s) = s"
| "py_str repr (JInt n) = show_int n"
| "py_str repr (JBool b) = (if b then ''True'' else ''False'')"
| "py_str repr JNull = ''None''"
| "py_str repr v = repr v"

section \<open>The store\<close>

subsection \<open>Case-insensitive regular expressions\<close>

text \<open>
  \<^verbatim>\<open>{"$regex": p, "$options": "i"}\<close> asks the store for an unanchored,
  case-insensitive search of the pattern \<open>p\<close>. Decided here:
  \<^item> a pattern of ASCII characters other than NUL in which the only metacharacter
    is the dot: every other character stands for itself in either case, the dot
    for any one character but a line feed;
  \<^item> a pattern with an opening parenthesis and no closing one, no backslash and
    no bracket: the store rejects it.
  Every other pattern goes to \<open>ext\<close>, the store's own engine, a parameter: \<open>None\<close>
  when the store rejects the pattern, otherwise the set of strings it finds a match in.
\<close>

definition regex_meta :: "char list" where
  "regex_meta = CHR 0x5C # ''^$.[]|()?*+{}''"

definition lower :: "char \<Rightarrow> char" where
  "lower c =
     (if 65 \<le> (of_char c :: nat) \<and> (of_char c :: nat) \<le> 90
      then char_of ((of_char c :: nat) + 32) else c)"

datatype atom = Lit char | AnyChar

fun atom_of :: "char \<Rightarrow> atom" where
  "atom_of c = (if c = CHR ''.'' then AnyChar else Lit c)"

fun atom_ok :: "atom \<Rightarrow> char \<Rightarrow> bool" where
  "atom_ok (Lit a) c = (lower a = lower c)"
| "atom_ok AnyChar c = (c \<noteq> CHR 0x0A)"

fun match_here :: "atom list \<Rightarrow> string \<Rightarrow> bool" where
  "match_here [] s = True"
| "match_here (a # as) [] = False"
| "match_here (a # as) (c # cs) = (atom_ok a c \<and> match_here as cs)"

fun search :: "atom list \<Rightarrow> string \<Rightarrow> bool" where
  "search as [] = match_here as []"
| "search as (c # cs) = (match_here as (c # cs) \<or> search as cs)"

definition plain_pattern :: "string \<Rightarrow> bool" where
  "plain_pattern p =
     (\<forall>c \<in> set p. 0 < (of_char c :: nat) \<and> (of_char c :: nat) < 128
                  \<and> (c \<in> set regex_meta \<longrightarrow> c = CHR ''.''))"

definition unclosed_group :: "string \<Rightarrow> bool" where
  "unclosed_group p =
     (CHR ''('' \<in> set p \<and> CHR '')'' \<notin> set p \<and> CHR 0x5C \<notin> set p \<and> CHR ''['' \<notin> set p)"

definition compile_regex ::
  "(string \<Rightarrow> (string \<Rightarrow> bool) option) \<Rightarrow> string \<Rightarrow> (string \<Rightarrow> bool) option" where
  "compile_regex ext p =
     (if plain_pattern p then Some (search (map atom_of p))
      else if unclosed_group p then None
      else ext p)"

text \<open>
  A query on a field matches a string value, and a list value when one of its
  elements matches.
\<close>

fun regex_matches :: "(string \<Rightarrow> bool) \<Rightarrow> json \<Rightarrow> bool" where
  "regex_matches m (JStr s) = m s"
| "regex_matches m (JArr xs) = (\<exists>x \<in> set xs. case x of JStr s \<Rightarrow> m s | _ \<Rightarrow> False)"
| "regex_matches m _ = False"

subsection \<open>Documents and collections\<close>

text \<open>
  The two collections hold the documents this program writes: a task is
  \<^verbatim>\<open>{_id, title, due, completed}\<close>, a reminder \<^verbatim>\<open>{_id, title, at, sent}\<close>. A
  collection is the list of its documents in insertion order, the order
  \<^verbatim>\<open>find\<close> and \<^verbatim>\<open>delete_one\<close> go through it. An \<^verbatim>\<open>ObjectId\<close> is the number
  its twelve bytes spell; the driver's generator is the counter \<open>next_oid\<close>.
  \<open>http_log\<close> is the list of requests sent to the language model so far.
  Connection faults and size limits of the store are not modelled.
\<close>

type_synonym oid = nat

record task =
  t_id :: oid
  t_title :: json
  t_due :: "json option"
  t_completed :: bool

record reminder =
  r_id :: oid
  r_title :: json
  r_at :: int
  r_sent :: bool

record tool =
  tool_name :: string
  tool_description :: string
  tool_properties :: "(string \<times> string \<times> string) list"
  tool_required :: "string list"

record request =
  req_url :: string
  req_prompt :: string
  req_tools :: "tool list"

record world =
  tasks :: "task list"
  reminders :: "reminder list"
  next_oid :: oid
  http_log :: "request list"

text \<open>
  An operation takes the world and gives back its outcome and the world it
  leaves, also when it raises.
\<close>

type_synonym 'a io = "world \<Rightarrow> (error + 'a) \<times> world"

definition ret :: "'a \<Rightarrow> 'a io" where
  "ret x w = (Inr x, w)"

definition lift :: "error + 'a \<Rightarrow> 'a io" where
  "lift m w = (m, w)"

definition thn :: "'a io \<Rightarrow> ('a \<Rightarrow> 'b io) \<Rightarrow> 'b io" where
  "thn m f w = (case m w of (Inl e, w') \<Rightarrow> (Inl e, w') | (Inr x, w') \<Rightarrow> f x w')"

text \<open>
  What the driver refuses to encode: an integer outside 64 bits
  (\<^verbatim>\<open>OverflowError\<close>) and a key with a NUL character (\<^verbatim>\<open>InvalidDocument\<close>).
\<close>

definition int64 :: "int \<Rightarrow> bool" where
  "int64 n = (- (2 ^ 63) \<le> n \<and> n < 2 ^ 63)"

fun first_error :: "error option list \<Rightarrow> error option" where
  "first_error [] = None"
| "first_error (None # es) = first_error es"
| "first_error (Some e # es) = Some e"

fun bson_check :: "json \<Rightarrow> error option" where
  "bson_check (JInt n) = (if int64 n then None else Some OverflowError)"
| "bson_check (JArr xs) = first_error (map bson_check xs)"
| "bson_check (JObj kvs) =
     first_error (map (\<lambda>kv. if CHR 0x00 \<in> set (fst kv) then Some InvalidDocument
                              else bson_check (snd kv)) kvs)"
| "bson_check _ = None"

text \<open>\<^verbatim>\<open>db.tasks.insert_one({"title": title, "due": None, "completed": False})\<close>\<close>

definition tasks_insert_one :: "json \<Rightarrow> oid io" where
  "tasks_insert_one title w =
     (case bson_check title of
        Some e \<Rightarrow> (Inl e, w)
      | None \<Rightarrow>
          (Inr (next_oid w),
           w\<lparr>tasks := tasks w @
                 [\<lparr>t_id = next_oid w, t_title = title, t_due = Some JNull,
                   t_completed = False\<rparr>],
             next_oid := Suc (next_oid w)\<rparr>))"

fun remove_first :: "('a \<Rightarrow> bool) \<Rightarrow> 'a list \<Rightarrow> 'a list" where
  "remove_first P [] = []"
| "remove_first P (x # xs) = (if P x then xs else x # remove_first P xs)"

text \<open>
  \<^verbatim>\<open>db.tasks.delete_one({"title": {"$regex": pat, "$options": "i"}})\<close>: the result
  is \<^verbatim>\<open>deleted_count\<close>. The store wants a string under \<^verbatim>\<open>$regex\<close>.
\<close>

definition tasks_delete_one ::
  "(string \<Rightarrow> (string \<Rightarrow> bool) option) \<Rightarrow> json \<Rightarrow> nat io" where
  "tasks_delete_one ext pat w =
     (case bson_check pat of
        Some e \<Rightarrow> (Inl e, w)
      | None \<Rightarrow>
          (case pat of
             JStr p \<Rightarrow>
               (case compile_regex ext p of
                  None \<Rightarrow> (Inl OperationFailure, w)
                | Some m \<Rightarrow>
                    if \<exists>t \<in> set (tasks w). regex_matches m (t_title t)
                    then (Inr 1,
                          w\<lparr>tasks := remove_first (\<lambda>t. regex_matches m (t_title t)) (tasks w)\<rparr>)
                    else (Inr 0, w))
           | _ \<Rightarrow> (Inl OperationFailure, w)))"

text \<open>\<^verbatim>\<open>db.tasks.find()\<close>\<close>

definition tasks_find :: "task list io" where
  "tasks_find w = (Inr (tasks w), w)"

text \<open>\<^verbatim>\<open>db.reminders.insert_one({"title": title, "at": trigger, "sent": False})\<close>\<close>

definition reminders_insert_one :: "json \<Rightarrow> int \<Rightarrow> oid io" where
  "reminders_insert_one title trigger w =
     (case first_error [bson_check title, bson_check (JInt trigger)] of
        Some e \<Rightarrow> (Inl e, w)
      | None \<Rightarrow>
          (Inr (next_oid w),
           w\<lparr>reminders := reminders w @
                 [\<lparr>r_id = next_oid w, r_title = title, r_at = trigger, r_sent = False\<rparr>],
             next_oid := Suc (next_oid w)\<rparr>))"

text \<open>\<^verbatim>\<open>db.reminders.find({"at": {"$lte": now}, "sent": False})\<close>\<close>

definition reminders_find_due :: "int \<Rightarrow> reminder list io" where
  "reminders_find_due now w =
     (Inr (filter (\<lambda>r. r_at r \<le> now \<and> r_sent r = False) (reminders w)), w)"

text \<open>
  \<^verbatim>\<open>db.reminders.update_many({"_id": {"$in": ids}}, {"$set": {"sent": True}})\<close>
\<close>

definition reminders_update_many :: "oid list \<Rightarrow> unit io" where
  "reminders_update_many ids w =
     (Inr (),
      w\<lparr>reminders :=
          map (\<lambda>r. if r_id r \<in> set ids then r\<lparr>r_sent := True\<rparr> else r) (reminders w)\<rparr>)"

section \<open>The program\<close>

subsection \<open>Setup and the tool definitions\<close>

definition MODEL :: string where
  "MODEL = ''gemini-2.0-flash''"

definition tools :: "tool list" where
  "tools =
     [\<lparr>tool_name = ''addTask'',
       tool_description = ''Add a new task to the user's to-do list.'',
       tool_properties =
         [(''title'', ''string'', ''The title of the task. e.g., 'Buy milk'' @ [CHR 0x27])],
       tool_required = [''title'']\<rparr>,
      \<lparr>tool_name = ''deleteTask'',
       tool_description =
         ''Delete a task from the user's list based on its title or keywords.'',
       tool_properties =
         [(''title'', ''string'',
           ''Keywords to find the task to delete. e.g., 'milk'' @ [CHR 0x27])],
       tool_required = [''title'']\<rparr>,
      \<lparr>tool_name = ''setReminder'',
       tool_description = ''Set a reminder for the user. Always requires a time.'',
       tool_properties =
         [(''title'', ''string'',
           ''The subject of the reminder. e.g., 'Call mom'' @ [CHR 0x27]),
          (''delay_minutes'', ''integer'',
           ''The number of minutes from now to set the reminder.'')],
       tool_required = [''title'', ''delay_minutes'']\<rparr>]"

text \<open>
  What a request sees around it: the credential \<^verbatim>\<open>API_KEY\<close> (\<open>None\<close> when the
  variable is unset), the language model behind \<^verbatim>\<open>client.post\<close>, the clock as
  \<^verbatim>\<open>int(datetime.now(timezone.utc).timestamp() * 1000)\<close> reads it, and the three
  parameters of the previous sections.
\<close>

record response =
  status_code :: int
  body :: "json option"

datatype http_outcome = Raises error | Responds response

record env =
  api_key :: "string option"
  post :: "request \<Rightarrow> http_outcome"
  now :: int
  int_ext :: "string \<Rightarrow> int option"
  repr_ext :: "json \<Rightarrow> string"
  regex_ext :: "string \<Rightarrow> (string \<Rightarrow> bool) option"

subsection \<open>Helper functions\<close>

definition hex_digit :: "nat \<Rightarrow> char" where
  "hex_digit n = (if n < 10 then char_of (48 + n) else char_of (87 + n))"

fun hex :: "nat \<Rightarrow> nat \<Rightarrow> string" where
  "hex 0 n = []"
| "hex (Suc k) n = hex k (n div 16) @ [hex_digit (n mod 16)]"

text \<open>\<^verbatim>\<open>str(task["_id"])\<close>: the 24 hexadecimal digits of the identifier.\<close>

definition str_oid :: "oid \<Rightarrow> string" where
  "str_oid i = hex 24 i"

definition task_helper :: "task \<Rightarrow> json" where
  "task_helper t =
     JObj [(''id'', JStr (str_oid (t_id t))),
           (''title'', t_title t),
           (''due'', (case t_due t of None \<Rightarrow> JNull | Some d \<Rightarrow> d)),
           (''completed'', JBool (t_completed t))]"

definition fallback :: "json \<Rightarrow> json" where
  "fallback reply = JObj [(''name'', JStr ''fallback''), (''args'', JObj [(''reply'', reply)])]"

definition request_for :: "env \<Rightarrow> string \<Rightarrow> request" where
  "request_for e prompt =
     \<lparr>req_url = ''https://generativelanguage.googleapis.com/v1beta/models/'' @ MODEL
                  @ '':generateContent?key=''
                  @ (case api_key e of None \<Rightarrow> ''None'' | Some k \<Rightarrow> k),
      req_prompt = prompt,
      req_tools = tools\<rparr>"

text \<open>\<^verbatim>\<open>await client.post(url, headers=headers, json=data)\<close>\<close>

definition http_post :: "env \<Rightarrow> request \<Rightarrow> response io" where
  "http_post e req w =
     (case post e req of
        Raises x \<Rightarrow> (Inl x, w\<lparr>http_log := http_log w @ [req]\<rparr>)
      | Responds r \<Rightarrow> (Inr r, w\<lparr>http_log := http_log w @ [req]\<rparr>))"

definition error_reply :: json_text where
  "error_reply = json_dumps (fallback (JStr ''Sorry, there was an error processing the request.''))"

text \<open>\<^verbatim>\<open>response_json["candidates"][0]["content"]["parts"][0]\<close>\<close>

definition first_part :: "json \<Rightarrow> error + json" where
  "first_part response_json =
     bnd (py_getitem response_json (KStr ''candidates'')) (\<lambda>cands.
     bnd (py_getitem cands (KInt 0)) (\<lambda>cand.
     bnd (py_getitem cand (KStr ''content'')) (\<lambda>content.
     bnd (py_getitem content (KStr ''parts'')) (\<lambda>parts.
     py_getitem parts (KInt 0)))))"

text \<open>The body of the \<^verbatim>\<open>try\<close> block, from \<^verbatim>\<open>response.json()\<close> on.\<close>

definition read_response :: "response \<Rightarrow> error + json_text" where
  "read_response r =
     bnd (case body r of None \<Rightarrow> Inl JSONDecodeError | Some j \<Rightarrow> Inr j) (\<lambda>response_json.
     bnd (if status_code r = 200 then py_in ''candidates'' response_json else Inr False) (\<lambda>ok.
     if ok then
       bnd (first_part response_json) (\<lambda>part.
       bnd (py_in ''functionCall'' part) (\<lambda>has_call.
       if has_call then
         bnd (py_getitem part (KStr ''functionCall'')) (\<lambda>call. Inr (json_dumps call))
       else
         bnd (py_in ''text'' part) (\<lambda>has_text.
         if has_text then
           bnd (py_getitem part (KStr ''text'')) (\<lambda>t. Inr (json_dumps (fallback t)))
         else Inr error_reply)))
     else Inr error_reply))"

definition gemini_tool_call :: "env \<Rightarrow> string \<Rightarrow> json_text io" where
  "gemini_tool_call e prompt w =
     (if api_key e = None \<or> api_key e = Some []
      then ret (json_dumps (fallback (JStr ''Gemini API key is not set.''))) w
      else
        (case thn (http_post e (request_for e prompt)) (\<lambda>r. lift (read_response r)) w of
           (Inr a, w') \<Rightarrow> (Inr a, w')
         | (Inl x, w') \<Rightarrow>
             if is_Exception x
             then (Inr (json_dumps (fallback (JStr ''Sorry, an unexpected error occurred.''))), w')
             else (Inl x, w')))"

subsection \<open>Tool handler functions\<close>

definition handle_add_task :: "env \<Rightarrow> json \<Rightarrow> string io" where
  \<open>handle_add_task e args =
     thn (lift (py_getitem args (KStr ''title''))) (\<lambda>title.
     thn (tasks_insert_one title) (\<lambda>_.
     thn (lift (py_getitem args (KStr ''title''))) (\<lambda>t.
     ret (''Task added: "'' @ py_str (repr_ext e) t @ ''"''))))\<close>

definition handle_delete_task :: "env \<Rightarrow> json \<Rightarrow> string io" where
  "handle_delete_task e args =
     thn (lift (py_getitem args (KStr ''title''))) (\<lambda>title.
     thn (tasks_delete_one (regex_ext e) title) (\<lambda>deleted_count.
     if deleted_count > 0 then
       thn (lift (py_getitem args (KStr ''title''))) (\<lambda>t.
       ret (''Deleted task matching '' @ [CHR 0x27] @ py_str (repr_ext e) t @ [CHR 0x27] @ ''.''))
     else
       thn (lift (py_getitem args (KStr ''title''))) (\<lambda>t.
       ret (''Couldn't find a task matching '' @ [CHR 0x27] @ py_str (repr_ext e) t
            @ [CHR 0x27] @ ''.''))))"

definition handle_set_reminder :: "env \<Rightarrow> json \<Rightarrow> string io" where
  \<open>handle_set_reminder e args =
     thn (lift (py_getitem args (KStr ''delay_minutes''))) (\<lambda>delay.
     thn (lift (py_int (int_ext e) delay)) (\<lambda>minutes.
     let reminder_time = now e + minutes * 60000 in
     thn (lift (py_getitem args (KStr ''title''))) (\<lambda>title.
     thn (reminders_insert_one title reminder_time) (\<lambda>_.
     thn (lift (py_getitem args (KStr ''title''))) (\<lambda>t.
     thn (lift (py_getitem args (KStr ''delay_minutes''))) (\<lambda>d.
     ret (''OK, I'll remind you about "'' @ py_str (repr_ext e) t @ ''" in ''
          @ py_str (repr_ext e) d @ '' minutes.'')))))))\<close>

definition tool_handlers :: "(string \<times> (env \<Rightarrow> json \<Rightarrow> string io)) list" where
  "tool_handlers =
     [(''addTask'', handle_add_task),
      (''deleteTask'', handle_delete_task),
      (''setReminder'', handle_set_reminder)]"

text \<open>
  \<^verbatim>\<open>tool_handlers.get(tool_name)\<close>: a list or a dict is no dictionary key
  (\<^verbatim>\<open>TypeError\<close>), any other value that is not a string is just absent.
\<close>

fun handlers_get :: "json \<Rightarrow> error + (env \<Rightarrow> json \<Rightarrow> string io) option" where
  "handlers_get (JStr n) = Inr (map_of tool_handlers n)"
| "handlers_get (JArr xs) = Inl TypeError"
| "handlers_get (JObj kvs) = Inl TypeError"
| "handlers_get _ = Inr None"

subsection \<open>API endpoints\<close>

text \<open>
  \<^verbatim>\<open>GET /chat\<close>; the result is the dict \<^verbatim>\<open>{"reply": reply}\<close>, a JSON value.
\<close>

definition chat :: "env \<Rightarrow> string \<Rightarrow> json io" where
  "chat e msg =
     thn (gemini_tool_call e msg) (\<lambda>text.
     let tool_response = json_loads text in
     thn (lift (py_get tool_response ''name'' JNull)) (\<lambda>tool_name.
     thn (lift (handlers_get tool_name)) (\<lambda>h.
     case h of
       Some handler \<Rightarrow>
         thn (lift (py_get tool_response ''args'' (JObj []))) (\<lambda>args.
         thn (handler e args) (\<lambda>reply.
         ret (JObj [(''reply'', JStr reply)])))
     | None \<Rightarrow>
         thn (lift (py_get tool_response ''args'' (JObj []))) (\<lambda>args.
         thn (lift (py_get args ''reply'' (JStr ''I'm not sure how to help with that.'')))
           (\<lambda>reply.
         ret (JObj [(''reply'', reply)]))))))"

text \<open>\<^verbatim>\<open>GET /api/tasks\<close>; the result is the dict \<^verbatim>\<open>{"tasks": tasks}\<close>.\<close>

definition get_tasks :: "json io" where
  "get_tasks =
     thn tasks_find (\<lambda>ts. ret (JObj [(''tasks'', JArr (map task_helper ts))]))"

text \<open>
  The coroutine \<^verbatim>\<open>get_due_reminders\<close>. Its result here is the list
  \<^verbatim>\<open>due_reminders\<close>, the documents as \<^verbatim>\<open>find\<close> gave them; the function returns
  it in the dict \<^verbatim>\<open>{"reminders": due_reminders}\<close>.
\<close>

definition get_due_reminders :: "env \<Rightarrow> reminder list io" where
  "get_due_reminders e =
     thn (reminders_find_due (now e)) (\<lambda>due_reminders.
     if due_reminders \<noteq> [] then
       thn (reminders_update_many (map r_id due_reminders)) (\<lambda>_. ret due_reminders)
     else ret due_reminders)"

subsection \<open>What the routes serve\<close>

text \<open>
  \<^verbatim>\<open>@app.get\<close> makes the value a coroutine returns into the response:
  FastAPI's encoder goes through dicts and lists and keeps JSON values; an
  \<^verbatim>\<open>ObjectId\<close> is neither, has no \<^verbatim>\<open>__dict__\<close> and is not iterable, so the
  encoder raises \<^verbatim>\<open>ValueError\<close> and the request is answered with status 500.
  \<^verbatim>\<open>chat\<close> and \<^verbatim>\<open>get_tasks\<close> return JSON values (\<^verbatim>\<open>task_helper\<close> makes the
  identifier a string); \<^verbatim>\<open>get_due_reminders\<close> returns the documents with their
  \<^verbatim>\<open>_id\<close>.
\<close>

datatype pyval =
    PJson json
  | PObjectId oid
  | PList "pyval list"
  | PDict "(string \<times> pyval) list"

fun collect :: "(error + 'a) list \<Rightarrow> error + 'a list" where
  "collect [] = Inr []"
| "collect (Inl x # rs) = Inl x"
| "collect (Inr v # rs) = bnd (collect rs) (\<lambda>vs. Inr (v # vs))"

fun jsonable_encoder :: "pyval \<Rightarrow> error + json" where
  "jsonable_encoder (PJson j) = Inr j"
| "jsonable_encoder (PObjectId i) = Inl ValueError"
| "jsonable_encoder (PList xs) =
     bnd (collect (map jsonable_encoder xs)) (\<lambda>js. Inr (JArr js))"
| "jsonable_encoder (PDict kvs) =
     bnd (collect (map (\<lambda>kv. bnd (jsonable_encoder (snd kv)) (\<lambda>j. Inr (fst kv, j))) kvs))
       (\<lambda>js. Inr (JObj js))"

text \<open>A reminder as the driver hands it over.\<close>

definition reminder_doc :: "reminder \<Rightarrow> pyval" where
  "reminder_doc r =
     PDict [(''_id'', PObjectId (r_id r)),
            (''title'', PJson (r_title r)),
            (''at'', PJson (JInt (r_at r))),
            (''sent'', PJson (JBool (r_sent r)))]"

text \<open>
  \<^verbatim>\<open>GET /api/due-reminders\<close>: the coroutine runs, then its return value
  \<^verbatim>\<open>{"reminders": due_reminders}\<close> is encoded.
\<close>

definition route_due_reminders :: "env \<Rightarrow> json io" where
  "route_due_reminders e =
     thn (get_due_reminders e) (\<lambda>due_reminders.
     lift (jsonable_encoder (PDict [(''reminders'', PList (map reminder_doc due_reminders))])))"

section \<open>Example inputs\<close>

text \<open>
  A successful answer of the language model with one part, a part that is a
  function call, surroundings whose model answers \<open>out\<close> at the time \<open>t\<close>, and a
  store with two tasks and two reminders.
\<close>

definition gemini_ok :: "json \<Rightarrow> http_outcome" where
  "gemini_ok part =
     Responds \<lparr>status_code = 200,
               body = Some (JObj [(''candidates'',
                 JArr [JObj [(''content'', JObj [(''parts'', JArr [part])])]])])\<rparr>"

definition function_call :: "string \<Rightarrow> (string \<times> json) list \<Rightarrow> json" where
  "function_call n args =
     JObj [(''functionCall'', JObj [(''name'', JStr n), (''args'', JObj args)])]"

definition ex_env :: "http_outcome \<Rightarrow> int \<Rightarrow> env" where
  "ex_env out t =
     \<lparr>api_key = Some ''secret'', post = (\<lambda>req. out), now = t,
      int_ext = (\<lambda>s. None), repr_ext = (\<lambda>v. []), regex_ext = (\<lambda>p. None)\<rparr>"

definition ex_world :: world where
  "ex_world =
     \<lparr>tasks = [\<lparr>t_id = 0, t_title = JStr ''abc'', t_due = Some JNull, t_completed = False\<rparr>,
               \<lparr>t_id = 1, t_title = JStr ''Buy Milk'', t_due = Some JNull,
                t_completed = False\<rparr>],
      reminders = [\<lparr>r_id = 2, r_title = JStr ''Call mom'', r_at = 500, r_sent = True\<rparr>,
                   \<lparr>r_id = 3, r_title = JStr ''Stretch'', r_at = 9000, r_sent = False\<rparr>],
      next_oid = 4,
      http_log = []\<rparr>"

section \<open>Basic facts\<close>

subsection \<open>Sequencing\<close>

lemma thn_lift_Inr: "thn (lift (Inr x)) f w = f x w"
  by (simp add: thn_def lift_def)

lemma thn_lift_Inl: "thn (lift (Inl x)) f w = (Inl x, w)"
  by (simp add: thn_def lift_def)

lemma thn_ret: "thn (ret x) f w = f x w"
  by (simp add: thn_def ret_def)

lemma thn_Inr: "m w = (Inr x, w') \<Longrightarrow> thn m f w = f x w'"
  by (simp add: thn_def)

lemma thn_Inl: "m w = (Inl x, w') \<Longrightarrow> thn m f w = (Inl x, w')"
  by (simp add: thn_def)


subsection \<open>The resolver\<close>

lemma gemini_no_key:
  "api_key e = None \<or> api_key e = Some [] \<Longrightarrow>
   gemini_tool_call e msg w
     = (Inr (json_dumps (fallback (JStr ''Gemini API key is not set.''))), w)"
  by (auto simp: gemini_tool_call_def ret_def)

lemma gemini_with_key:
  "api_key e = Some k \<Longrightarrow> k \<noteq> [] \<Longrightarrow>
   gemini_tool_call e msg w =
     (case (case post e (request_for e msg) of Raises x \<Rightarrow> Inl x | Responds r \<Rightarrow> read_response r) of
        Inr a \<Rightarrow> Inr a
      | Inl x \<Rightarrow> if is_Exception x
                then Inr (json_dumps (fallback (JStr ''Sorry, an unexpected error occurred.'')))
                else Inl x,
      w\<lparr>http_log := http_log w @ [request_for e msg]\<rparr>)"
  by (simp add: gemini_tool_call_def thn_def http_post_def lift_def
      split: http_outcome.splits sum.splits)

lemma first_part_gemini_ok:
  "first_part (JObj [(''candidates'', JArr [JObj [(''content'', JObj [(''parts'', JArr [part])])]])])
     = Inr part"
  by (simp add: first_part_def bnd_def seq_index_def)

lemma gemini_ok_call:
  "gemini_tool_call (ex_env (gemini_ok (JObj ((''functionCall'', c) # rest))) t) msg w =
     (Inr (json_dumps c), w\<lparr>http_log := http_log w @ [request_for (ex_env (gemini_ok (JObj ((''functionCall'', c) # rest))) t) msg]\<rparr>)"
proof -
  have k: "api_key (ex_env (gemini_ok (JObj ((''functionCall'', c) # rest))) t) = Some ''secret''"
    "''secret'' \<noteq> []"
    by (simp_all add: ex_env_def)
  show ?thesis
    unfolding gemini_with_key [OF k]
    by (simp add: ex_env_def gemini_ok_def read_response_def first_part_gemini_ok bnd_def)
qed

lemma gemini_world:
  "gemini_tool_call e msg w = (r, w') \<Longrightarrow>
   tasks w' = tasks w \<and> reminders w' = reminders w \<and> next_oid w' = next_oid w"
  by (auto simp: gemini_tool_call_def ret_def thn_def http_post_def lift_def
      split: if_splits http_outcome.splits sum.splits prod.splits)

lemma seq_index_exc: "seq_index xs i = Inl x \<Longrightarrow> is_Exception x"
  by (auto simp: seq_index_def split: if_splits)

lemma py_getitem_exc: "py_getitem v k = Inl x \<Longrightarrow> is_Exception x"
  by (cases "(v, k)" rule: py_getitem.cases)
     (auto simp: bnd_def split: option.splits sum.splits dest: seq_index_exc)

lemma py_in_exc: "py_in k v = Inl x \<Longrightarrow> is_Exception x"
  by (cases "(k, v)" rule: py_in.cases) auto

lemma first_part_exc: "first_part j = Inl x \<Longrightarrow> is_Exception x"
  by (auto simp: first_part_def bnd_def split: sum.splits dest: py_getitem_exc)

lemma read_response_exc: "read_response r = Inl x \<Longrightarrow> is_Exception x"
  by (auto simp: read_response_def bnd_def
      split: option.splits sum.splits if_splits
      dest: py_getitem_exc py_in_exc first_part_exc)

lemma read_response_no_body: "body r = None \<Longrightarrow> read_response r = Inl JSONDecodeError"
  by (simp add: read_response_def bnd_def)

lemma read_response_status:
  "body r = Some j \<Longrightarrow> status_code r \<noteq> 200 \<Longrightarrow> read_response r = Inr error_reply"
  by (simp add: read_response_def bnd_def)

lemma read_response_no_candidates:
  "body r = Some j \<Longrightarrow> py_in ''candidates'' j = Inr False \<Longrightarrow> read_response r = Inr error_reply"
  by (simp add: read_response_def bnd_def)

lemma read_response_part:
  "body r = Some j \<Longrightarrow> status_code r = 200 \<Longrightarrow> py_in ''candidates'' j = Inr True \<Longrightarrow>
   first_part j = Inr part \<Longrightarrow>
   read_response r =
     bnd (py_in ''functionCall'' part) (\<lambda>has_call.
       if has_call then
         bnd (py_getitem part (KStr ''functionCall'')) (\<lambda>call. Inr (json_dumps call))
       else
         bnd (py_in ''text'' part) (\<lambda>has_text.
         if has_text then
           bnd (py_getitem part (KStr ''text'')) (\<lambda>t. Inr (json_dumps (fallback t)))
         else Inr error_reply))"
  by (simp add: read_response_def bnd_def)

lemma read_response_cases:
  assumes "read_response r = Inr a"
  shows "a = error_reply
     \<or> (\<exists>j part call. body r = Some j \<and> status_code r = 200 \<and> first_part j = Inr part
           \<and> py_getitem part (KStr ''functionCall'') = Inr call \<and> a = json_dumps call)
     \<or> (\<exists>j part t. body r = Some j \<and> status_code r = 200 \<and> first_part j = Inr part
           \<and> py_getitem part (KStr ''text'') = Inr t \<and> a = json_dumps (fallback t))"
  using assms
  by (auto simp: read_response_def bnd_def split: option.splits sum.splits if_splits)


subsection \<open>Dispatch\<close>

lemma chat_dispatch:
  assumes "gemini_tool_call e msg w = (Inr (json_dumps (JObj kvs)), w')"
    and "map_of kvs ''name'' = Some (JStr n)"
    and "map_of tool_handlers n = Some h"
  shows "chat e msg w =
           thn (h e (case map_of kvs ''args'' of None \<Rightarrow> JObj [] | Some a \<Rightarrow> a))
               (\<lambda>reply. ret (JObj [(''reply'', JStr reply)])) w'"
  using assms
  by (simp add: chat_def thn_def lift_def json_dumps_def)

lemma chat_no_handler:
  assumes "gemini_tool_call e msg w = (Inr (json_dumps (JObj kvs)), w')"
    and "handlers_get (case map_of kvs ''name'' of None \<Rightarrow> JNull | Some v \<Rightarrow> v) = Inr None"
    and "(case map_of kvs ''args'' of None \<Rightarrow> JObj [] | Some a \<Rightarrow> a) = JObj avs"
  shows "chat e msg w =
           (Inr (JObj [(''reply'', case map_of avs ''reply'' of
                                      None \<Rightarrow> JStr ''I'm not sure how to help with that.''
                                    | Some v \<Rightarrow> v)]), w')"
  using assms
  by (simp add: chat_def thn_def lift_def json_dumps_def ret_def)

lemma add_task_no_title:
  "map_of kvs ''title'' = None \<Longrightarrow> handle_add_task e (JObj kvs) w = (Inl KeyError, w)"
  by (simp add: handle_add_task_def thn_lift_Inl)

lemma delete_task_no_title:
  "map_of kvs ''title'' = None \<Longrightarrow> handle_delete_task e (JObj kvs) w = (Inl KeyError, w)"
  by (simp add: handle_delete_task_def thn_lift_Inl)

lemma set_reminder_no_delay:
  "map_of kvs ''delay_minutes'' = None \<Longrightarrow> handle_set_reminder e (JObj kvs) w = (Inl KeyError, w)"
  by (simp add: handle_set_reminder_def thn_lift_Inl)

lemma set_reminder_no_title:
  "map_of kvs ''delay_minutes'' = Some d \<Longrightarrow> py_int (int_ext e) d = Inr n \<Longrightarrow>
   map_of kvs ''title'' = None \<Longrightarrow> handle_set_reminder e (JObj kvs) w = (Inl KeyError, w)"
  by (simp add: handle_set_reminder_def thn_lift_Inl thn_lift_Inr Let_def)

lemma add_task_str:
  "map_of kvs ''title'' = Some (JStr T) \<Longrightarrow>
   handle_add_task e (JObj kvs) w =
     (Inr (''Task added: '' @ [CHR 0x22] @ T @ [CHR 0x22]),
      w\<lparr>tasks := tasks w @ [\<lparr>t_id = next_oid w, t_title = JStr T, t_due = Some JNull, t_completed = False\<rparr>],
        next_oid := Suc (next_oid w)\<rparr>)"
  by (simp add: handle_add_task_def thn_lift_Inr thn_def tasks_insert_one_def ret_def lift_def)

lemma get_tasks_eq: "get_tasks w = (Inr (JObj [(''tasks'', JArr (map task_helper (tasks w)))]), w)"
  by (simp add: get_tasks_def thn_def tasks_find_def ret_def)


section \<open>The intent resolver never faults\<close>

text \<open>
  Claim C1. \<^verbatim>\<open>gemini_tool_call\<close> answers every failure of the language model with
  a fallback action, the dict \<^verbatim>\<open>{"name": "fallback", "args": {"reply": message}}\<close>. Without a credential (unset or empty) it returns the fallback
  "Gemini API key is not set." and leaves the world as it was, so no request is
  sent. With a credential: when the call raises an exception (unreachable, timed
  out), when the body is not JSON, or when reading the response raises, the
  result is the fallback "Sorry, an unexpected error occurred."; when the status
  is not 200, when there are no candidates, or when the first part holds neither
  a function call nor text, it is the fallback "Sorry, there was an error
  processing the request.". Unless the call raises something that is not an
  \<^verbatim>\<open>Exception\<close>, the function returns a value.
\<close>

theorem gemini_tool_call_fallback:
  "(api_key e = None \<or> api_key e = Some [] \<longrightarrow>
      gemini_tool_call e msg w
        = (Inr (Dumped (JObj [(''name'', JStr ''fallback''),
                 (''args'', JObj [(''reply'', JStr ''Gemini API key is not set.'')])])), w))
   \<and> (api_key e \<noteq> None \<and> api_key e \<noteq> Some [] \<longrightarrow>
        (\<forall>x. post e (request_for e msg) = Raises x \<and> is_Exception x \<longrightarrow>
           fst (gemini_tool_call e msg w)
             = Inr (Dumped (JObj [(''name'', JStr ''fallback''),
                 (''args'', JObj [(''reply'', JStr ''Sorry, an unexpected error occurred.'')])])))
      \<and> (\<forall>r x. post e (request_for e msg) = Responds r \<and> read_response r = Inl x \<longrightarrow>
           fst (gemini_tool_call e msg w)
             = Inr (Dumped (JObj [(''name'', JStr ''fallback''),
                 (''args'', JObj [(''reply'', JStr ''Sorry, an unexpected error occurred.'')])])))
      \<and> (\<forall>r. post e (request_for e msg) = Responds r \<and> body r = None \<longrightarrow>
           fst (gemini_tool_call e msg w)
             = Inr (Dumped (JObj [(''name'', JStr ''fallback''),
                 (''args'', JObj [(''reply'', JStr ''Sorry, an unexpected error occurred.'')])])))
      \<and> (\<forall>r j. post e (request_for e msg) = Responds r \<and> body r = Some j
                \<and> status_code r \<noteq> 200 \<longrightarrow>
           fst (gemini_tool_call e msg w)
             = Inr (Dumped (JObj [(''name'', JStr ''fallback''),
                 (''args'', JObj [(''reply'', JStr ''Sorry, there was an error processing the request.'')])])))
      \<and> (\<forall>r j. post e (request_for e msg) = Responds r \<and> body r = Some j
                \<and> py_in ''candidates'' j = Inr False \<longrightarrow>
           fst (gemini_tool_call e msg w)
             = Inr (Dumped (JObj [(''name'', JStr ''fallback''),
                 (''args'', JObj [(''reply'', JStr ''Sorry, there was an error processing the request.'')])])))
      \<and> (\<forall>r j part. post e (request_for e msg) = Responds r \<and> body r = Some j
                \<and> status_code r = 200 \<and> py_in ''candidates'' j = Inr True
                \<and> first_part j = Inr part
                \<and> py_in ''functionCall'' part = Inr False \<and> py_in ''text'' part = Inr False \<longrightarrow>
           fst (gemini_tool_call e msg w)
             = Inr (Dumped (JObj [(''name'', JStr ''fallback''),
                 (''args'', JObj [(''reply'', JStr ''Sorry, there was an error processing the request.'')])])))
      \<and> ((\<forall>x. post e (request_for e msg) = Raises x \<longrightarrow> is_Exception x) \<longrightarrow>
           (\<exists>a. fst (gemini_tool_call e msg w) = Inr a)))"
proof (intro conjI impI)
  assume "api_key e = None \<or> api_key e = Some []"
  then show "gemini_tool_call e msg w
        = (Inr (Dumped (JObj [(''name'', JStr ''fallback''),
                 (''args'', JObj [(''reply'', JStr ''Gemini API key is not set.'')])])), w)"
    by (simp add: gemini_no_key fallback_def json_dumps_def)
next
  assume "api_key e \<noteq> None \<and> api_key e \<noteq> Some []"
  then obtain k where k: "api_key e = Some k" "k \<noteq> []"
    by auto
  note g = gemini_with_key [OF k, of msg w, unfolded fallback_def json_dumps_def]
  show "\<forall>x. post e (request_for e msg) = Raises x \<and> is_Exception x \<longrightarrow>
           fst (gemini_tool_call e msg w)
             = Inr (Dumped (JObj [(''name'', JStr ''fallback''),
                 (''args'', JObj [(''reply'', JStr ''Sorry, an unexpected error occurred.'')])]))"
    by (simp add: g)
  show "\<forall>r x. post e (request_for e msg) = Responds r \<and> read_response r = Inl x \<longrightarrow>
           fst (gemini_tool_call e msg w)
             = Inr (Dumped (JObj [(''name'', JStr ''fallback''),
                 (''args'', JObj [(''reply'', JStr ''Sorry, an unexpected error occurred.'')])]))"
    by (auto simp: g dest: read_response_exc)
  show "\<forall>r. post e (request_for e msg) = Responds r \<and> body r = None \<longrightarrow>
           fst (gemini_tool_call e msg w)
             = Inr (Dumped (JObj [(''name'', JStr ''fallback''),
                 (''args'', JObj [(''reply'', JStr ''Sorry, an unexpected error occurred.'')])]))"
    by (simp add: g read_response_no_body)
  show "\<forall>r j. post e (request_for e msg) = Responds r \<and> body r = Some j
                \<and> status_code r \<noteq> 200 \<longrightarrow>
           fst (gemini_tool_call e msg w)
             = Inr (Dumped (JObj [(''name'', JStr ''fallback''),
                 (''args'', JObj [(''reply'', JStr ''Sorry, there was an error processing the request.'')])]))"
    by (simp add: g read_response_status error_reply_def fallback_def json_dumps_def)
  show "\<forall>r j. post e (request_for e msg) = Responds r \<and> body r = Some j
                \<and> py_in ''candidates'' j = Inr False \<longrightarrow>
           fst (gemini_tool_call e msg w)
             = Inr (Dumped (JObj [(''name'', JStr ''fallback''),
                 (''args'', JObj [(''reply'', JStr ''Sorry, there was an error processing the request.'')])]))"
    by (simp add: g read_response_no_candidates error_reply_def fallback_def json_dumps_def)
  show "\<forall>r j part. post e (request_for e msg) = Responds r \<and> body r = Some j
                \<and> status_code r = 200 \<and> py_in ''candidates'' j = Inr True
                \<and> first_part j = Inr part
                \<and> py_in ''functionCall'' part = Inr False \<and> py_in ''text'' part = Inr False \<longrightarrow>
           fst (gemini_tool_call e msg w)
             = Inr (Dumped (JObj [(''name'', JStr ''fallback''),
                 (''args'', JObj [(''reply'', JStr ''Sorry, there was an error processing the request.'')])]))"
    by (simp add: g read_response_part bnd_def error_reply_def fallback_def json_dumps_def)
  show "\<exists>a. fst (gemini_tool_call e msg w) = Inr a"
    if "\<forall>x. post e (request_for e msg) = Raises x \<longrightarrow> is_Exception x"
    using that
    by (auto simp: g split: http_outcome.splits sum.splits dest: read_response_exc)
qed

theorem gemini_tool_call_fallback_witness:
  "gemini_tool_call (ex_env (Raises ConnectError) 0\<lparr>api_key := None\<rparr>) ''hello'' ex_world
     = (Inr (Dumped (JObj [(''name'', JStr ''fallback''),
                 (''args'', JObj [(''reply'', JStr ''Gemini API key is not set.'')])])), ex_world)
   \<and> fst (gemini_tool_call (ex_env (Raises TimeoutException) 0) ''hello'' ex_world)
     = Inr (Dumped (JObj [(''name'', JStr ''fallback''),
                 (''args'', JObj [(''reply'', JStr ''Sorry, an unexpected error occurred.'')])]))
   \<and> fst (gemini_tool_call (ex_env (Responds \<lparr>status_code = 502, body = None\<rparr>) 0)
            ''hello'' ex_world)
     = Inr (Dumped (JObj [(''name'', JStr ''fallback''),
                 (''args'', JObj [(''reply'', JStr ''Sorry, an unexpected error occurred.'')])]))
   \<and> fst (gemini_tool_call (ex_env (Responds \<lparr>status_code = 429, body = Some (JObj [])\<rparr>) 0)
            ''hello'' ex_world)
     = Inr (Dumped (JObj [(''name'', JStr ''fallback''),
                 (''args'', JObj [(''reply'', JStr ''Sorry, there was an error processing the request.'')])]))
   \<and> fst (gemini_tool_call (ex_env (gemini_ok (JObj [])) 0) ''hello'' ex_world)
     = Inr (Dumped (JObj [(''name'', JStr ''fallback''),
                 (''args'', JObj [(''reply'', JStr ''Sorry, there was an error processing the request.'')])]))"
  using gemini_tool_call_fallback [of "ex_env (Raises ConnectError) 0\<lparr>api_key := None\<rparr>"
          "''hello''" ex_world]
    gemini_tool_call_fallback [of "ex_env (Raises TimeoutException) 0" "''hello''" ex_world]
    gemini_tool_call_fallback [of "ex_env (Responds \<lparr>status_code = 502, body = None\<rparr>) 0"
          "''hello''" ex_world]
    gemini_tool_call_fallback [of "ex_env (Responds \<lparr>status_code = 429, body = Some (JObj [])\<rparr>) 0"
          "''hello''" ex_world]
    gemini_tool_call_fallback [of "ex_env (gemini_ok (JObj [])) 0" "''hello''" ex_world]
  by (simp add: ex_env_def gemini_ok_def first_part_gemini_ok)


section \<open>Schema and dispatch table\<close>

text \<open>
  Claim C9. The names of the tools catalog and the keys of \<^verbatim>\<open>tool_handlers\<close>
  are the same three names, each once in either structure.
\<close>

theorem schema_table_coverage:
  "set (map tool_name tools) = set (map fst tool_handlers)
   \<and> distinct (map tool_name tools) \<and> distinct (map fst tool_handlers)
   \<and> length tools = length tool_handlers"
  by (simp add: tools_def tool_handlers_def)


section \<open>Handlers do not check their arguments\<close>

text \<open>
  Claim C10. There is a resolver outcome, the call \<^verbatim>\<open>addTask\<close> with empty
  arguments, on which \<^verbatim>\<open>chat\<close> raises \<^verbatim>\<open>KeyError\<close> instead of returning a
  reply. In general: \<^verbatim>\<open>handle_add_task\<close> and \<^verbatim>\<open>handle_delete_task\<close> raise
  \<^verbatim>\<open>KeyError\<close> on arguments without \<^verbatim>\<open>title\<close>, \<^verbatim>\<open>handle_set_reminder\<close> on
  arguments without \<^verbatim>\<open>delay_minutes\<close>, or with a delay and without
  \<^verbatim>\<open>title\<close>; the store is left as it was, and \<^verbatim>\<open>chat\<close> lets the exception
  through.
\<close>

theorem chat_missing_argument_faults:
  "(\<exists>e msg w w'. gemini_tool_call e msg w
        = (Inr (json_dumps (JObj [(''name'', JStr ''addTask''), (''args'', JObj [])])), w')
      \<and> chat e msg w = (Inl KeyError, w'))
   \<and> (\<forall>e kvs w. map_of kvs ''title'' = None \<longrightarrow>
         handle_add_task e (JObj kvs) w = (Inl KeyError, w)
         \<and> handle_delete_task e (JObj kvs) w = (Inl KeyError, w))
   \<and> (\<forall>e kvs w. map_of kvs ''delay_minutes'' = None \<longrightarrow>
         handle_set_reminder e (JObj kvs) w = (Inl KeyError, w))
   \<and> (\<forall>e kvs w d n. map_of kvs ''delay_minutes'' = Some d \<and> py_int (int_ext e) d = Inr n
         \<and> map_of kvs ''title'' = None \<longrightarrow>
         handle_set_reminder e (JObj kvs) w = (Inl KeyError, w))
   \<and> (\<forall>e msg w w' kvs avs.
         gemini_tool_call e msg w = (Inr (json_dumps (JObj kvs)), w')
         \<and> (case map_of kvs ''args'' of None \<Rightarrow> JObj [] | Some a \<Rightarrow> a) = JObj avs
         \<and> (map_of kvs ''name'' = Some (JStr ''addTask'') \<and> map_of avs ''title'' = None
            \<or> map_of kvs ''name'' = Some (JStr ''deleteTask'') \<and> map_of avs ''title'' = None
            \<or> map_of kvs ''name'' = Some (JStr ''setReminder'')
                \<and> map_of avs ''delay_minutes'' = None)
         \<longrightarrow> chat e msg w = (Inl KeyError, w'))"
proof (intro conjI allI impI)
  let ?e = "ex_env (gemini_ok (function_call ''addTask'' [])) 0"
  let ?w' = "ex_world\<lparr>http_log := http_log ex_world @ [request_for ?e ''add it'']\<rparr>"
  have g: "gemini_tool_call ?e ''add it'' ex_world
             = (Inr (json_dumps (JObj [(''name'', JStr ''addTask''), (''args'', JObj [])])), ?w')"
    unfolding function_call_def by (rule gemini_ok_call)
  have "chat ?e ''add it'' ex_world = (Inl KeyError, ?w')"
    by (simp add: chat_dispatch [OF g, of "''addTask''" handle_add_task] tool_handlers_def
        thn_def add_task_no_title)
  with g show "\<exists>e msg w w'. gemini_tool_call e msg w
        = (Inr (json_dumps (JObj [(''name'', JStr ''addTask''), (''args'', JObj [])])), w')
      \<and> chat e msg w = (Inl KeyError, w')"
    by blast
next
  fix e :: env and kvs :: "(string \<times> json) list" and w :: world
  assume "map_of kvs ''title'' = None"
  then show "handle_add_task e (JObj kvs) w = (Inl KeyError, w)"
    and "handle_delete_task e (JObj kvs) w = (Inl KeyError, w)"
    by (simp_all add: add_task_no_title delete_task_no_title)
next
  fix e :: env and kvs :: "(string \<times> json) list" and w :: world
  assume "map_of kvs ''delay_minutes'' = None"
  then show "handle_set_reminder e (JObj kvs) w = (Inl KeyError, w)"
    by (rule set_reminder_no_delay)
next
  fix e :: env and kvs :: "(string \<times> json) list" and w :: world and d n
  assume "map_of kvs ''delay_minutes'' = Some d \<and> py_int (int_ext e) d = Inr n
         \<and> map_of kvs ''title'' = None"
  then show "handle_set_reminder e (JObj kvs) w = (Inl KeyError, w)"
    by (simp add: set_reminder_no_title)
next
  fix e msg w w' kvs avs
  assume a: "gemini_tool_call e msg w = (Inr (json_dumps (JObj kvs)), w')
         \<and> (case map_of kvs ''args'' of None \<Rightarrow> JObj [] | Some a \<Rightarrow> a) = JObj avs
         \<and> (map_of kvs ''name'' = Some (JStr ''addTask'') \<and> map_of avs ''title'' = None
            \<or> map_of kvs ''name'' = Some (JStr ''deleteTask'') \<and> map_of avs ''title'' = None
            \<or> map_of kvs ''name'' = Some (JStr ''setReminder'')
                \<and> map_of avs ''delay_minutes'' = None)"
  then have g: "gemini_tool_call e msg w = (Inr (json_dumps (JObj kvs)), w')"
    and args: "(case map_of kvs ''args'' of None \<Rightarrow> JObj [] | Some a \<Rightarrow> a) = JObj avs"
    by simp_all
  from a consider
      "map_of kvs ''name'' = Some (JStr ''addTask'')" "map_of avs ''title'' = None"
    | "map_of kvs ''name'' = Some (JStr ''deleteTask'')" "map_of avs ''title'' = None"
    | "map_of kvs ''name'' = Some (JStr ''setReminder'')" "map_of avs ''delay_minutes'' = None"
    by argo
  then show "chat e msg w = (Inl KeyError, w')"
  proof cases
    case 1
    then show ?thesis
      by (simp add: chat_dispatch [OF g, of "''addTask''" handle_add_task] tool_handlers_def
          args thn_def add_task_no_title)
  next
    case 2
    then show ?thesis
      by (simp add: chat_dispatch [OF g, of "''deleteTask''" handle_delete_task] tool_handlers_def
          args thn_def delete_task_no_title)
  next
    case 3
    then show ?thesis
      by (simp add: chat_dispatch [OF g, of "''setReminder''" handle_set_reminder]
          tool_handlers_def args thn_def set_reminder_no_delay)
  qed
qed

theorem chat_missing_argument_faults_witness:
  "map_of ([] :: (string \<times> json) list) ''title'' = None
   \<and> handle_add_task (ex_env (Raises ConnectError) 0) (JObj []) ex_world
       = (Inl KeyError, ex_world)
   \<and> handle_delete_task (ex_env (Raises ConnectError) 0) (JObj []) ex_world
       = (Inl KeyError, ex_world)
   \<and> map_of [(''title'', JStr ''Call mom'')] ''delay_minutes'' = None
   \<and> handle_set_reminder (ex_env (Raises ConnectError) 0) (JObj [(''title'', JStr ''Call mom'')])
         ex_world
       = (Inl KeyError, ex_world)
   \<and> handle_set_reminder (ex_env (Raises ConnectError) 0) (JObj [(''delay_minutes'', JInt 5)])
         ex_world
       = (Inl KeyError, ex_world)
   \<and> fst (chat (ex_env (gemini_ok (function_call ''deleteTask'' [])) 0) ''delete it'' ex_world)
       = Inl KeyError"
proof -
  let ?e = "ex_env (Raises ConnectError) 0"
  let ?g = "ex_env (gemini_ok (function_call ''deleteTask'' [])) 0"
  note t = chat_missing_argument_faults
  have h1: "map_of ([] :: (string \<times> json) list) ''title'' = None"
    by simp
  have h2: "map_of [(''title'', JStr ''Call mom'')] ''delay_minutes'' = None"
    by simp
  have h3: "map_of [(''delay_minutes'', JInt 5)] ''delay_minutes'' = Some (JInt 5)
      \<and> py_int (int_ext ?e) (JInt 5) = Inr 5
      \<and> map_of [(''delay_minutes'', JInt 5)] ''title'' = None"
    by simp
  have h4: "gemini_tool_call ?g ''delete it'' ex_world
        = (Inr (json_dumps (JObj [(''name'', JStr ''deleteTask''), (''args'', JObj [])])),
           ex_world\<lparr>http_log := http_log ex_world @ [request_for ?g ''delete it'']\<rparr>)
      \<and> (case map_of [(''name'', JStr ''deleteTask''), (''args'', JObj [])] ''args'' of
            None \<Rightarrow> JObj [] | Some a \<Rightarrow> a) = JObj []
      \<and> (map_of [(''name'', JStr ''deleteTask''), (''args'', JObj [])] ''name''
              = Some (JStr ''addTask'') \<and> map_of ([] :: (string \<times> json) list) ''title'' = None
          \<or> map_of [(''name'', JStr ''deleteTask''), (''args'', JObj [])] ''name''
              = Some (JStr ''deleteTask'') \<and> map_of ([] :: (string \<times> json) list) ''title'' = None
          \<or> map_of [(''name'', JStr ''deleteTask''), (''args'', JObj [])] ''name''
              = Some (JStr ''setReminder'')
            \<and> map_of ([] :: (string \<times> json) list) ''delay_minutes'' = None)"
    unfolding function_call_def by (simp add: gemini_ok_call)
  show ?thesis
    using h1 h2
      t [THEN conjunct2, THEN conjunct1, rule_format, OF h1, of ?e ex_world]
      t [THEN conjunct2, THEN conjunct2, THEN conjunct1, rule_format, OF h2, of ?e ex_world]
      t [THEN conjunct2, THEN conjunct2, THEN conjunct2, THEN conjunct1, rule_format, OF h3,
         of ex_world]
      t [THEN conjunct2, THEN conjunct2, THEN conjunct2, THEN conjunct2, rule_format, OF h4]
    by simp
qed


section \<open>Adding a task\<close>

text \<open>
  Claim C6. For every title \<open>T\<close>, empty and blank ones too, \<^verbatim>\<open>handle_add_task\<close>
  succeeds, and \<^verbatim>\<open>get_tasks\<close> then lists the tasks it listed before followed by
  one new task with the title \<open>T\<close>, \<^verbatim>\<open>completed\<close> false and \<^verbatim>\<open>due\<close> null.
\<close>

theorem add_task_then_list:
  "map_of kvs ''title'' = Some (JStr T) \<Longrightarrow>
   \<exists>w'. handle_add_task e (JObj kvs) w = (Inr (''Task added: '' @ [CHR 0x22] @ T @ [CHR 0x22]), w')
     \<and> get_tasks w = (Inr (JObj [(''tasks'', JArr (map task_helper (tasks w)))]), w)
     \<and> get_tasks w'
        = (Inr (JObj [(''tasks'', JArr (map task_helper (tasks w) @
             [JObj [(''id'', JStr (str_oid (next_oid w))), (''title'', JStr T),
                    (''due'', JNull), (''completed'', JBool False)]]))]), w')
     \<and> length (tasks w') = Suc (length (tasks w))
     \<and> reminders w' = reminders w"
  by (simp add: add_task_str get_tasks_eq task_helper_def)

theorem add_task_then_list_witness:
  "map_of [(''title'', JStr ''  '')] ''title'' = Some (JStr ''  '')
   \<and> (\<exists>w'. handle_add_task (ex_env (Raises ConnectError) 0) (JObj [(''title'', JStr ''  '')])
              ex_world
            = (Inr (''Task added: '' @ [CHR 0x22] @ ''  '' @ [CHR 0x22]), w')
       \<and> get_tasks ex_world
          = (Inr (JObj [(''tasks'', JArr (map task_helper (tasks ex_world)))]), ex_world)
       \<and> get_tasks w'
          = (Inr (JObj [(''tasks'', JArr (map task_helper (tasks ex_world) @
               [JObj [(''id'', JStr (str_oid (next_oid ex_world))), (''title'', JStr ''  ''),
                      (''due'', JNull), (''completed'', JBool False)]]))]), w')
       \<and> length (tasks w') = Suc (length (tasks ex_world))
       \<and> reminders w' = reminders ex_world)"
proof -
  have h: "map_of [(''title'', JStr ''  '')] ''title'' = Some (JStr ''  '')"
    by simp
  show ?thesis
    using h add_task_then_list [OF h, of "ex_env (Raises ConnectError) 0" ex_world]
    by blast
qed

section \<open>Actions without a handler\<close>

lemma handlers_get_str:
  "handlers_get (JStr n) = Inr None \<longleftrightarrow> n \<notin> set (map tool_name tools)"
  by (simp add: tool_handlers_def tools_def)

lemma gemini_text_part:
  assumes "api_key e = Some k" "k \<noteq> []"
    and "post e (request_for e msg) = Responds r"
    and "body r = Some j" "status_code r = 200" "py_in ''candidates'' j = Inr True"
    and "first_part j = Inr (JObj pkvs)"
    and "''functionCall'' \<notin> set (map fst pkvs)" "map_of pkvs ''text'' = Some t"
  shows "gemini_tool_call e msg w
           = (Inr (json_dumps (fallback t)), w\<lparr>http_log := http_log w @ [request_for e msg]\<rparr>)"
proof -
  have "''text'' \<in> set (map fst pkvs)"
    using assms(9) by (metis map_of_eq_None_iff option.distinct(1) set_map)
  then have "read_response r = Inr (json_dumps (fallback t))"
    using assms by (simp add: read_response_part bnd_def)
  then show ?thesis
    by (simp add: gemini_with_key [OF assms(1,2)] assms(3))
qed


text \<open>
  Claim C8. When the resolver's action is a dict whose name
  \<^verbatim>\<open>tool_handlers.get\<close> does not find (\<^verbatim>\<open>fallback\<close>, any other string
  outside the table, or no name at all) and whose arguments are a dict or
  missing, \<^verbatim>\<open>chat\<close> leaves tasks, reminders and the identifier counter as they
  were and replies with the argument \<^verbatim>\<open>reply\<close> when there is one, and with
  "I'm not sure how to help with that." when there is none. In particular text
  returned by the language model is the reply, unchanged.
\<close>

theorem chat_fallback_reply:
  "(\<forall>e msg w w' kvs avs.
       gemini_tool_call e msg w = (Inr (json_dumps (JObj kvs)), w')
       \<and> handlers_get (case map_of kvs ''name'' of None \<Rightarrow> JNull | Some v \<Rightarrow> v) = Inr None
       \<and> (case map_of kvs ''args'' of None \<Rightarrow> JObj [] | Some a \<Rightarrow> a) = JObj avs
       \<longrightarrow> chat e msg w
             = (Inr (JObj [(''reply'',
                  case map_of avs ''reply'' of
                    None \<Rightarrow> JStr ''I'm not sure how to help with that.''
                  | Some v \<Rightarrow> v)]), w')
           \<and> tasks w' = tasks w \<and> reminders w' = reminders w \<and> next_oid w' = next_oid w)
   \<and> (\<forall>n. handlers_get (JStr n) = Inr None \<longleftrightarrow> n \<notin> set (map fst tool_handlers))
   \<and> handlers_get (JStr ''fallback'') = Inr None
   \<and> handlers_get JNull = Inr None
   \<and> (\<forall>e msg w k r j pkvs t.
         api_key e = Some k \<and> k \<noteq> []
         \<and> post e (request_for e msg) = Responds r
         \<and> body r = Some j \<and> status_code r = 200 \<and> py_in ''candidates'' j = Inr True
         \<and> first_part j = Inr (JObj pkvs)
         \<and> ''functionCall'' \<notin> set (map fst pkvs) \<and> map_of pkvs ''text'' = Some t
         \<longrightarrow> chat e msg w
               = (Inr (JObj [(''reply'', t)]), w\<lparr>http_log := http_log w @ [request_for e msg]\<rparr>))"
proof (intro conjI allI impI)
  fix e msg w w' kvs avs
  assume a: "gemini_tool_call e msg w = (Inr (json_dumps (JObj kvs)), w')
       \<and> handlers_get (case map_of kvs ''name'' of None \<Rightarrow> JNull | Some v \<Rightarrow> v) = Inr None
       \<and> (case map_of kvs ''args'' of None \<Rightarrow> JObj [] | Some a \<Rightarrow> a) = JObj avs"
  then show "chat e msg w
             = (Inr (JObj [(''reply'',
                  case map_of avs ''reply'' of
                    None \<Rightarrow> JStr ''I'm not sure how to help with that.''
                  | Some v \<Rightarrow> v)]), w')"
    by (simp add: chat_no_handler)
  from a show "tasks w' = tasks w" "reminders w' = reminders w" "next_oid w' = next_oid w"
    using gemini_world [of e msg w _ w'] by simp_all
next
  fix n show "handlers_get (JStr n) = Inr None \<longleftrightarrow> n \<notin> set (map fst tool_handlers)"
    by (simp add: tool_handlers_def)
next
  show "handlers_get (JStr ''fallback'') = Inr None"
    by (simp add: tool_handlers_def)
next
  show "handlers_get JNull = Inr None"
    by simp
next
  fix e msg w k r j pkvs t
  assume a: "api_key e = Some k \<and> k \<noteq> []
         \<and> post e (request_for e msg) = Responds r
         \<and> body r = Some j \<and> status_code r = 200 \<and> py_in ''candidates'' j = Inr True
         \<and> first_part j = Inr (JObj pkvs)
         \<and> ''functionCall'' \<notin> set (map fst pkvs) \<and> map_of pkvs ''text'' = Some t"
  then have g: "gemini_tool_call e msg w
           = (Inr (json_dumps (JObj [(''name'', JStr ''fallback''), (''args'', JObj [(''reply'', t)])])),
              w\<lparr>http_log := http_log w @ [request_for e msg]\<rparr>)"
    using gemini_text_part [of e k msg r j pkvs t w] by (simp add: fallback_def)
  show "chat e msg w
               = (Inr (JObj [(''reply'', t)]), w\<lparr>http_log := http_log w @ [request_for e msg]\<rparr>)"
    by (simp add: chat_no_handler [OF g, of "[(''reply'', t)]"] tool_handlers_def)
qed

theorem chat_fallback_reply_witness:
  "chat (ex_env (gemini_ok (JObj [(''text'', JStr ''Hello'')])) 0) ''hi there'' ex_world
     = (Inr (JObj [(''reply'', JStr ''Hello'')]),
        ex_world\<lparr>http_log := [request_for (ex_env (gemini_ok (JObj [(''text'', JStr ''Hello'')])) 0)
                                  ''hi there'']\<rparr>)
   \<and> chat (ex_env (gemini_ok (function_call ''completeTask'' [(''title'', JStr ''abc'')])) 0)
        ''done with abc'' ex_world
     = (Inr (JObj [(''reply'', JStr ''I'm not sure how to help with that.'')]),
        ex_world\<lparr>http_log :=
          [request_for (ex_env (gemini_ok (function_call ''completeTask'' [(''title'', JStr ''abc'')])) 0)
             ''done with abc'']\<rparr>)"
proof -
  let ?e = "ex_env (gemini_ok (JObj [(''text'', JStr ''Hello'')])) 0"
  let ?f = "ex_env (gemini_ok (function_call ''completeTask'' [(''title'', JStr ''abc'')])) 0"
  note t = chat_fallback_reply
  have h1: "api_key ?e = Some ''secret'' \<and> ''secret'' \<noteq> []
         \<and> post ?e (request_for ?e ''hi there'')
             = Responds \<lparr>status_code = 200,
                 body = Some (JObj [(''candidates'',
                   JArr [JObj [(''content'', JObj [(''parts'', JArr [JObj [(''text'', JStr ''Hello'')]])])]])])\<rparr>
         \<and> body \<lparr>status_code = 200,
                 body = Some (JObj [(''candidates'',
                   JArr [JObj [(''content'', JObj [(''parts'', JArr [JObj [(''text'', JStr ''Hello'')]])])]])])\<rparr>
             = Some (JObj [(''candidates'',
                   JArr [JObj [(''content'', JObj [(''parts'', JArr [JObj [(''text'', JStr ''Hello'')]])])]])])
         \<and> status_code \<lparr>status_code = 200,
                 body = Some (JObj [(''candidates'',
                   JArr [JObj [(''content'', JObj [(''parts'', JArr [JObj [(''text'', JStr ''Hello'')]])])]])])\<rparr> = 200
         \<and> py_in ''candidates'' (JObj [(''candidates'',
                   JArr [JObj [(''content'', JObj [(''parts'', JArr [JObj [(''text'', JStr ''Hello'')]])])]])]) = Inr True
         \<and> first_part (JObj [(''candidates'',
                   JArr [JObj [(''content'', JObj [(''parts'', JArr [JObj [(''text'', JStr ''Hello'')]])])]])])
             = Inr (JObj [(''text'', JStr ''Hello'')])
         \<and> ''functionCall'' \<notin> set (map fst [(''text'', JStr ''Hello'')])
         \<and> map_of [(''text'', JStr ''Hello'')] ''text'' = Some (JStr ''Hello'')"
    by (simp add: ex_env_def gemini_ok_def first_part_gemini_ok)
  have h2: "gemini_tool_call ?f ''done with abc'' ex_world
       = (Inr (json_dumps (JObj [(''name'', JStr ''completeTask''),
                                 (''args'', JObj [(''title'', JStr ''abc'')])])),
          ex_world\<lparr>http_log := http_log ex_world @ [request_for ?f ''done with abc'']\<rparr>)
       \<and> handlers_get (case map_of [(''name'', JStr ''completeTask''),
                                 (''args'', JObj [(''title'', JStr ''abc'')])] ''name'' of
                          None \<Rightarrow> JNull | Some v \<Rightarrow> v) = Inr None
       \<and> (case map_of [(''name'', JStr ''completeTask''),
                                 (''args'', JObj [(''title'', JStr ''abc'')])] ''args'' of
             None \<Rightarrow> JObj [] | Some a \<Rightarrow> a) = JObj [(''title'', JStr ''abc'')]"
    unfolding function_call_def by (simp add: gemini_ok_call tool_handlers_def)
  show ?thesis
    using t [THEN conjunct1, rule_format, OF h2]
      t [THEN conjunct2, THEN conjunct2, THEN conjunct2, THEN conjunct2, rule_format, OF h1,
         of ex_world]
    by (simp add: ex_world_def)
qed

section \<open>The due-reminder sweep\<close>

lemma sweep_eq:
  "get_due_reminders e w =
     (Inr (filter (\<lambda>r. r_at r \<le> now e \<and> r_sent r = False) (reminders w)),
      if filter (\<lambda>r. r_at r \<le> now e \<and> r_sent r = False) (reminders w) = [] then w
      else w\<lparr>reminders :=
             map (\<lambda>r. if r_id r \<in> set (map r_id
                          (filter (\<lambda>r. r_at r \<le> now e \<and> r_sent r = False) (reminders w)))
                       then r\<lparr>r_sent := True\<rparr> else r) (reminders w)\<rparr>)"
  by (simp add: get_due_reminders_def thn_def reminders_find_due_def reminders_update_many_def
      ret_def)

lemma mark_distinct:
  assumes d: "distinct (map r_id rs)"
  shows "map (\<lambda>r. if r_id r \<in> r_id ` set (filter P rs) then r\<lparr>r_sent := True\<rparr> else r) rs
     = map (\<lambda>r. if P r then r\<lparr>r_sent := True\<rparr> else r) rs"
proof (rule map_cong [OF refl])
  fix r assume r: "r \<in> set rs"
  have "r_id r \<in> r_id ` set (filter P rs) \<longleftrightarrow> P r"
  proof
    assume "r_id r \<in> r_id ` set (filter P rs)"
    then obtain r' where r': "r' \<in> set rs" "P r'" "r_id r' = r_id r"
      by auto
    from d have "inj_on r_id (set rs)"
      by (simp add: distinct_map)
    with r r' have "r' = r"
      by (simp add: inj_on_def)
    with r' show "P r" by simp
  next
    assume "P r"
    with r show "r_id r \<in> r_id ` set (filter P rs)" by simp
  qed
  then show "(if r_id r \<in> r_id ` set (filter P rs) then r\<lparr>r_sent := True\<rparr> else r)
           = (if P r then r\<lparr>r_sent := True\<rparr> else r)"
    by simp
qed

lemma sweep_due_mem:
  "r \<in> set (reminders w) \<Longrightarrow> r_at r \<le> now e \<Longrightarrow> r_sent r = False \<Longrightarrow>
   \<exists>due w'. get_due_reminders e w = (Inr due, w') \<and> r \<in> set due"
  by (simp add: sweep_eq)

lemma set_reminder_ok:
  assumes "map_of kvs ''title'' = Some title" "map_of kvs ''delay_minutes'' = Some d"
    and "py_int (int_ext e) d = Inr n" "bson_check title = None" "int64 (now e + n * 60000)"
  shows "handle_set_reminder e (JObj kvs) w =
     (Inr (''OK, I'll remind you about '' @ [CHR 0x22] @ py_str (repr_ext e) title @ [CHR 0x22]
           @ '' in '' @ py_str (repr_ext e) d @ '' minutes.''),
      w\<lparr>reminders := reminders w @
            [\<lparr>r_id = next_oid w, r_title = title, r_at = now e + n * 60000, r_sent = False\<rparr>],
        next_oid := Suc (next_oid w)\<rparr>)"
  using assms
  by (simp add: handle_set_reminder_def thn_def lift_def ret_def reminders_insert_one_def Let_def)

lemma set_reminder_bad_delay:
  "map_of kvs ''delay_minutes'' = Some d \<Longrightarrow> py_int (int_ext e) d = Inl x \<Longrightarrow>
   handle_set_reminder e (JObj kvs) w = (Inl x, w)"
  by (simp add: handle_set_reminder_def thn_def lift_def)

lemma set_reminder_overflow:
  "map_of kvs ''title'' = Some title \<Longrightarrow> map_of kvs ''delay_minutes'' = Some d \<Longrightarrow>
   py_int (int_ext e) d = Inr n \<Longrightarrow> bson_check title = None \<Longrightarrow>
   \<not> int64 (now e + n * 60000) \<Longrightarrow>
   handle_set_reminder e (JObj kvs) w = (Inl OverflowError, w)"
  by (simp add: handle_set_reminder_def thn_def lift_def ret_def reminders_insert_one_def Let_def)

text \<open>
  What the coroutine computes: its list is exactly the reminders with \<^verbatim>\<open>sent\<close>
  false and \<^verbatim>\<open>at <= now\<close>; in the world it leaves each of them has \<^verbatim>\<open>sent\<close>
  true; when none is due the world is unchanged.
\<close>

lemma sweep_result:
  "\<exists>w'. get_due_reminders e w
          = (Inr (filter (\<lambda>r. r_at r \<le> now e \<and> r_sent r = False) (reminders w)), w')
     \<and> (\<forall>r \<in> set (reminders w).
           r_at r \<le> now e \<and> r_sent r = False \<longrightarrow> r\<lparr>r_sent := True\<rparr> \<in> set (reminders w'))
     \<and> (\<forall>r \<in> set (reminders w). r_sent r \<longrightarrow> r \<in> set (reminders w'))
     \<and> (distinct (map r_id (reminders w)) \<longrightarrow>
           reminders w' = map (\<lambda>r. if r_at r \<le> now e \<and> r_sent r = False
                                    then r\<lparr>r_sent := True\<rparr> else r) (reminders w))
     \<and> (filter (\<lambda>r. r_at r \<le> now e \<and> r_sent r = False) (reminders w) = [] \<longrightarrow> w' = w)
     \<and> tasks w' = tasks w \<and> next_oid w' = next_oid w \<and> http_log w' = http_log w"
proof -
  let ?P = "\<lambda>r. r_at r \<le> now e \<and> r_sent r = False"
  let ?due = "filter ?P (reminders w)"
  let ?mark = "\<lambda>r. if r_id r \<in> r_id ` set ?due then r\<lparr>r_sent := True\<rparr> else r"
  let ?w' = "snd (get_due_reminders e w)"
  have g: "get_due_reminders e w = (Inr ?due, ?w')"
    by (simp add: sweep_eq)
  have rs: "reminders ?w' = map ?mark (reminders w)"
  proof (cases "?due = []")
    case True
    then have "map ?mark (reminders w) = map (\<lambda>r. r) (reminders w)"
      by simp
    with True show ?thesis by (simp add: sweep_eq)
  next
    case False
    then show ?thesis by (simp add: sweep_eq)
  qed
  have 1: "\<forall>r \<in> set (reminders w). ?P r \<longrightarrow> r\<lparr>r_sent := True\<rparr> \<in> set (reminders ?w')"
  proof (intro ballI impI)
    fix r assume r: "r \<in> set (reminders w)" "?P r"
    then have "r_id r \<in> r_id ` set ?due" by simp
    then have "?mark r = r\<lparr>r_sent := True\<rparr>" by simp
    moreover from r(1) have "?mark r \<in> ?mark ` set (reminders w)" by (rule imageI)
    ultimately show "r\<lparr>r_sent := True\<rparr> \<in> set (reminders ?w')"
      unfolding rs set_map by simp
  qed
  have 2: "\<forall>r \<in> set (reminders w). r_sent r \<longrightarrow> r \<in> set (reminders ?w')"
  proof (intro ballI impI)
    fix r assume r: "r \<in> set (reminders w)" "r_sent r"
    then have "?mark r = r" by simp
    moreover from r(1) have "?mark r \<in> ?mark ` set (reminders w)" by (rule imageI)
    ultimately show "r \<in> set (reminders ?w')"
      unfolding rs set_map by simp
  qed
  have 3: "distinct (map r_id (reminders w)) \<longrightarrow>
           reminders ?w' = map (\<lambda>r. if ?P r then r\<lparr>r_sent := True\<rparr> else r) (reminders w)"
    unfolding rs using mark_distinct [of "reminders w" ?P] by simp
  have 4: "?due = [] \<longrightarrow> ?w' = w"
    by (simp add: sweep_eq)
  have 5: "tasks ?w' = tasks w" "next_oid ?w' = next_oid w" "http_log ?w' = http_log w"
    by (simp_all add: sweep_eq)
  show ?thesis
    apply (rule exI [of _ ?w'])
    using g 1 2 3 4 5 apply (intro conjI)
           apply assumption+
    done
qed

lemma encode_docs:
  "jsonable_encoder (PDict [(''reminders'', PList (map reminder_doc rs))])
     = (if rs = [] then Inr (JObj [(''reminders'', JArr [])]) else Inl ValueError)"
proof (cases rs)
  case Nil
  then show ?thesis by (simp add: bnd_def)
next
  case (Cons r rest)
  then show ?thesis by (simp add: bnd_def reminder_doc_def)
qed

lemma route_eq:
  "route_due_reminders e w =
     (if filter (\<lambda>r. r_at r \<le> now e \<and> r_sent r = False) (reminders w) = []
      then Inr (JObj [(''reminders'', JArr [])]) else Inl ValueError,
      snd (get_due_reminders e w))"
  unfolding route_due_reminders_def thn_def lift_def encode_docs
  by (simp add: sweep_eq filter_empty_conv)

text \<open>
  Claim C3, a defect of the code. The route \<^verbatim>\<open>/api/due-reminders\<close> returns the
  due reminders only when there are none. In the example store one reminder is
  due at the time 10000: the coroutine finds it and marks it sent, then the
  encoding of the document, which still carries its \<^verbatim>\<open>ObjectId\<close>, raises, and the
  request fails with the reminder marked. At the time 600 nothing is due and the
  route answers with the empty list. \<^verbatim>\<open>task_helper\<close> converts the identifier for
  \<^verbatim>\<open>/api/tasks\<close>; this route does not.
\<close>

theorem due_reminders_route_fails:
  "get_due_reminders (ex_env (Raises ConnectError) 10000) ex_world
     = (Inr [\<lparr>r_id = 3, r_title = JStr ''Stretch'', r_at = 9000, r_sent = False\<rparr>],
        ex_world\<lparr>reminders :=
          [\<lparr>r_id = 2, r_title = JStr ''Call mom'', r_at = 500, r_sent = True\<rparr>,
           \<lparr>r_id = 3, r_title = JStr ''Stretch'', r_at = 9000, r_sent = True\<rparr>]\<rparr>)
   \<and> route_due_reminders (ex_env (Raises ConnectError) 10000) ex_world
     = (Inl ValueError,
        ex_world\<lparr>reminders :=
          [\<lparr>r_id = 2, r_title = JStr ''Call mom'', r_at = 500, r_sent = True\<rparr>,
           \<lparr>r_id = 3, r_title = JStr ''Stretch'', r_at = 9000, r_sent = True\<rparr>]\<rparr>)
   \<and> route_due_reminders (ex_env (Raises ConnectError) 600) ex_world
     = (Inr (JObj [(''reminders'', JArr [])]), ex_world)"
  by (simp add: route_eq sweep_eq ex_env_def ex_world_def)

text \<open>
  Claim C2, a defect of the code. A reminder is created with
  \<^verbatim>\<open>delay_minutes\<close> 0 in an empty store. The first request to
  \<^verbatim>\<open>/api/due-reminders\<close> after it fails: the reminder is marked sent and the
  encoding of its document raises. The second request answers with the empty
  list. The reminder is in the result of neither.
\<close>

theorem reminder_lost_on_first_poll:
  "handle_set_reminder (ex_env (Raises ConnectError) 20000)
       (JObj [(''title'', JStr ''Tea''), (''delay_minutes'', JInt 0)])
       \<lparr>tasks = [], reminders = [], next_oid = 0, http_log = []\<rparr>
     = (Inr (''OK, I'll remind you about '' @ [CHR 0x22] @ ''Tea'' @ [CHR 0x22]
             @ '' in 0 minutes.''),
        \<lparr>tasks = [],
         reminders = [\<lparr>r_id = 0, r_title = JStr ''Tea'', r_at = 20000, r_sent = False\<rparr>],
         next_oid = 1, http_log = []\<rparr>)
   \<and> route_due_reminders (ex_env (Raises ConnectError) 20001)
       \<lparr>tasks = [],
        reminders = [\<lparr>r_id = 0, r_title = JStr ''Tea'', r_at = 20000, r_sent = False\<rparr>],
        next_oid = 1, http_log = []\<rparr>
     = (Inl ValueError,
        \<lparr>tasks = [],
         reminders = [\<lparr>r_id = 0, r_title = JStr ''Tea'', r_at = 20000, r_sent = True\<rparr>],
         next_oid = 1, http_log = []\<rparr>)
   \<and> route_due_reminders (ex_env (Raises ConnectError) 20002)
       \<lparr>tasks = [],
        reminders = [\<lparr>r_id = 0, r_title = JStr ''Tea'', r_at = 20000, r_sent = True\<rparr>],
        next_oid = 1, http_log = []\<rparr>
     = (Inr (JObj [(''reminders'', JArr [])]),
        \<lparr>tasks = [],
         reminders = [\<lparr>r_id = 0, r_title = JStr ''Tea'', r_at = 20000, r_sent = True\<rparr>],
         next_oid = 1, http_log = []\<rparr>)"
proof -
  have s: "show_int 0 = ''0''"
    by code_simp
  have i: "int64 (now (ex_env (Raises ConnectError) 20000) + 0 * 60000)"
    by (simp add: int64_def ex_env_def)
  have a: "handle_set_reminder (ex_env (Raises ConnectError) 20000)
       (JObj [(''title'', JStr ''Tea''), (''delay_minutes'', JInt 0)])
       \<lparr>tasks = [], reminders = [], next_oid = 0, http_log = []\<rparr>
     = (Inr (''OK, I'll remind you about '' @ [CHR 0x22] @ ''Tea'' @ [CHR 0x22]
             @ '' in 0 minutes.''),
        \<lparr>tasks = [],
         reminders = [\<lparr>r_id = 0, r_title = JStr ''Tea'', r_at = 20000, r_sent = False\<rparr>],
         next_oid = 1, http_log = []\<rparr>)"
    using set_reminder_ok [of "[(''title'', JStr ''Tea''), (''delay_minutes'', JInt 0)]"
        "JStr ''Tea''" "JInt 0" "ex_env (Raises ConnectError) 20000" 0
        "\<lparr>tasks = [], reminders = [], next_oid = 0, http_log = []\<rparr>"] i
    by (simp add: s) (simp add: ex_env_def)
  show ?thesis
    by (simp only: a simp_thms) (simp add: route_eq sweep_eq ex_env_def)
qed

section \<open>Setting a reminder\<close>

lemma trunc_bounds: "\<bar>of_int (trunc r)\<bar> \<le> \<bar>r\<bar> \<and> \<bar>r - of_int (trunc r)\<bar> < 1"
  unfolding trunc_def by (auto; linarith)


text \<open>
  Claim C5, refuted as stated. \<^verbatim>\<open>int()\<close> does not convert every value, and
  the store refuses a trigger time outside 64 bits: with the delay \<^verbatim>\<open>"soon"\<close>
  and with the delay \<open>10 ^ 18\<close> the handler \<^verbatim>\<open>handle_set_reminder\<close> raises and
  inserts nothing.
\<close>

theorem set_reminder_int_counterexample:
  "handle_set_reminder (ex_env (Raises ConnectError) 1000)
       (JObj [(''title'', JStr ''Call mom''), (''delay_minutes'', JStr ''soon'')]) ex_world
     = (Inl ValueError, ex_world)
   \<and> handle_set_reminder (ex_env (Raises ConnectError) 1000)
       (JObj [(''title'', JStr ''Call mom''), (''delay_minutes'', JInt 1000000000000000000)])
       ex_world
     = (Inl OverflowError, ex_world)"
proof
  have "int_of_str (int_ext (ex_env (Raises ConnectError) 1000)) ''soon'' = None"
    by (simp add: int_of_str_def is_digit_def)
  then have p: "py_int (int_ext (ex_env (Raises ConnectError) 1000)) (JStr ''soon'')
      = Inl ValueError"
    by simp
  show "handle_set_reminder (ex_env (Raises ConnectError) 1000)
       (JObj [(''title'', JStr ''Call mom''), (''delay_minutes'', JStr ''soon'')]) ex_world
     = (Inl ValueError, ex_world)"
    by (rule set_reminder_bad_delay [OF _ p]) simp
next
  have q: "\<not> int64 (now (ex_env (Raises ConnectError) 1000) + 1000000000000000000 * 60000)"
    by (simp add: int64_def ex_env_def)
  have p: "py_int (int_ext (ex_env (Raises ConnectError) 1000)) (JInt 1000000000000000000)
      = Inr 1000000000000000000"
    by simp
  have b: "bson_check (JStr ''Call mom'') = None"
    by simp
  show "handle_set_reminder (ex_env (Raises ConnectError) 1000)
       (JObj [(''title'', JStr ''Call mom''), (''delay_minutes'', JInt 1000000000000000000)])
       ex_world
     = (Inl OverflowError, ex_world)"
    by (rule set_reminder_overflow [OF _ _ p b q]) simp_all
qed


text \<open>
  Claim C5, amended. For every string title and every delay that \<^verbatim>\<open>int()\<close>
  converts to an integer \<open>n\<close> with \<open>now + n * 60000\<close> within 64 bits,
  \<^verbatim>\<open>handle_set_reminder\<close> inserts a reminder with \<^verbatim>\<open>sent\<close> false and
  \<^verbatim>\<open>at = now + n * 60000\<close>, and its reply echoes the title and the delay as it
  was given. No range is checked: with \<open>n \<le> 0\<close> the reminder is returned by a
  sweep at any time from \<open>now\<close> on. An integer converts to itself, a boolean to 0
  or 1, a finite float to the integer next to it towards zero. When \<^verbatim>\<open>int()\<close>
  raises, the handler raises the same exception and the world is unchanged.
\<close>

theorem set_reminder_coerces_delay:
  "(\<forall>e kvs w T d n.
       map_of kvs ''title'' = Some (JStr T) \<and> map_of kvs ''delay_minutes'' = Some d
       \<and> py_int (int_ext e) d = Inr n \<and> int64 (now e + n * 60000)
       \<longrightarrow> handle_set_reminder e (JObj kvs) w
             = (Inr (''OK, I'll remind you about '' @ [CHR 0x22] @ T @ [CHR 0x22] @ '' in ''
                     @ py_str (repr_ext e) d @ '' minutes.''),
                w\<lparr>reminders := reminders w @
                      [\<lparr>r_id = next_oid w, r_title = JStr T, r_at = now e + n * 60000,
                        r_sent = False\<rparr>],
                  next_oid := Suc (next_oid w)\<rparr>)
           \<and> (n \<le> 0 \<longrightarrow>
                (\<forall>e'. now e \<le> now e' \<longrightarrow>
                   (\<exists>due w'. get_due_reminders e' (snd (handle_set_reminder e (JObj kvs) w))
                                = (Inr due, w')
                      \<and> \<lparr>r_id = next_oid w, r_title = JStr T, r_at = now e + n * 60000,
                           r_sent = False\<rparr> \<in> set due))))
   \<and> (\<forall>ext n. py_int ext (JInt n) = Inr n)
   \<and> (\<forall>ext b. py_int ext (JBool b) = Inr (if b then 1 else 0))
   \<and> (\<forall>ext r. py_int ext (JFloat (Finite r)) = Inr (trunc r)
         \<and> \<bar>of_int (trunc r)\<bar> \<le> \<bar>r\<bar> \<and> \<bar>r - of_int (trunc r)\<bar> < 1)
   \<and> (\<forall>e kvs w d x.
         map_of kvs ''delay_minutes'' = Some d \<and> py_int (int_ext e) d = Inl x
         \<longrightarrow> handle_set_reminder e (JObj kvs) w = (Inl x, w))"
proof (intro conjI allI impI)
  fix e :: env and kvs and w :: world and T d n
  assume a: "map_of kvs ''title'' = Some (JStr T) \<and> map_of kvs ''delay_minutes'' = Some d
       \<and> py_int (int_ext e) d = Inr n \<and> int64 (now e + n * 60000)"
  let ?new = "\<lparr>r_id = next_oid w, r_title = JStr T, r_at = now e + n * 60000, r_sent = False\<rparr>"
  let ?w1 = "w\<lparr>reminders := reminders w @ [?new], next_oid := Suc (next_oid w)\<rparr>"
  from a have s: "handle_set_reminder e (JObj kvs) w
             = (Inr (''OK, I'll remind you about '' @ [CHR 0x22] @ T @ [CHR 0x22] @ '' in ''
                     @ py_str (repr_ext e) d @ '' minutes.''), ?w1)"
    using set_reminder_ok [of kvs "JStr T" d e n w] by simp
  then show "handle_set_reminder e (JObj kvs) w
             = (Inr (''OK, I'll remind you about '' @ [CHR 0x22] @ T @ [CHR 0x22] @ '' in ''
                     @ py_str (repr_ext e) d @ '' minutes.''), ?w1)" .
  fix e' :: env
  assume n: "n \<le> 0" and t: "now e \<le> now e'"
  have "?new \<in> set (reminders ?w1)" "r_at ?new \<le> now e'" "r_sent ?new = False"
    using n t by simp_all
  from sweep_due_mem [OF this]
  show "\<exists>due w'. get_due_reminders e' (snd (handle_set_reminder e (JObj kvs) w)) = (Inr due, w')
          \<and> ?new \<in> set due"
    by (simp only: s snd_conv)
next
  fix ext n show "py_int ext (JInt n) = Inr n" by simp
next
  fix ext b show "py_int ext (JBool b) = Inr (if b then 1 else 0)" by simp
next
  fix ext r show "py_int ext (JFloat (Finite r)) = Inr (trunc r)" by simp
  show "\<bar>of_int (trunc r)\<bar> \<le> \<bar>r\<bar>" "\<bar>r - of_int (trunc r)\<bar> < 1"
    using trunc_bounds [of r] by simp_all
next
  fix e :: env and kvs and w :: world and d x
  assume "map_of kvs ''delay_minutes'' = Some d \<and> py_int (int_ext e) d = Inl x"
  then show "handle_set_reminder e (JObj kvs) w = (Inl x, w)"
    by (simp add: set_reminder_bad_delay)
qed

theorem set_reminder_coerces_delay_witness:
  "map_of [(''title'', JStr ''Call mom''), (''delay_minutes'', JInt (- 3))] ''title''
      = Some (JStr ''Call mom'')
   \<and> map_of [(''title'', JStr ''Call mom''), (''delay_minutes'', JInt (- 3))] ''delay_minutes''
      = Some (JInt (- 3))
   \<and> py_int (int_ext (ex_env (Raises ConnectError) 200000)) (JInt (- 3)) = Inr (- 3)
   \<and> int64 (now (ex_env (Raises ConnectError) 200000) + (- 3) * 60000)
   \<and> handle_set_reminder (ex_env (Raises ConnectError) 200000)
        (JObj [(''title'', JStr ''Call mom''), (''delay_minutes'', JInt (- 3))]) ex_world
      = (Inr (''OK, I'll remind you about '' @ [CHR 0x22] @ ''Call mom'' @ [CHR 0x22]
              @ '' in -3 minutes.''),
         ex_world\<lparr>reminders := reminders ex_world @
             [\<lparr>r_id = 4, r_title = JStr ''Call mom'', r_at = 20000, r_sent = False\<rparr>],
           next_oid := 5\<rparr>)
   \<and> map_of [(''delay_minutes'', JNull)] ''delay_minutes'' = Some JNull
   \<and> py_int (int_ext (ex_env (Raises ConnectError) 200000)) JNull = Inl TypeError
   \<and> handle_set_reminder (ex_env (Raises ConnectError) 200000)
        (JObj [(''delay_minutes'', JNull)]) ex_world
      = (Inl TypeError, ex_world)"
proof -
  let ?e = "ex_env (Raises ConnectError) 200000"
  have h: "map_of [(''title'', JStr ''Call mom''), (''delay_minutes'', JInt (- 3))] ''title''
        = Some (JStr ''Call mom'')
      \<and> map_of [(''title'', JStr ''Call mom''), (''delay_minutes'', JInt (- 3))] ''delay_minutes''
        = Some (JInt (- 3))
      \<and> py_int (int_ext ?e) (JInt (- 3)) = Inr (- 3)
      \<and> int64 (now ?e + (- 3) * 60000)"
    by (simp add: int64_def ex_env_def)
  have k: "map_of [(''delay_minutes'', JNull)] ''delay_minutes'' = Some JNull
      \<and> py_int (int_ext ?e) JNull = Inl TypeError"
    by simp
  note t = set_reminder_coerces_delay
  have s: "show_int (- 3) = ''-3''"
    by code_simp
  show ?thesis
    using h k t [THEN conjunct1, rule_format, OF h, THEN conjunct1, of ex_world]
      t [THEN conjunct2, THEN conjunct2, THEN conjunct2, THEN conjunct2, rule_format, OF k,
         of ex_world]
    by (simp add: s) (simp add: ex_env_def ex_world_def)
qed


section \<open>Deleting a task\<close>

lemma remove_first_split:
  "\<exists>x \<in> set xs. P x \<Longrightarrow>
   \<exists>pre hit post. remove_first P xs = pre @ post \<and> xs = pre @ hit # post
      \<and> (\<forall>y \<in> set pre. \<not> P y) \<and> P hit"
proof (induction xs)
  case Nil
  then show ?case by simp
next
  case (Cons a xs)
  show ?case
  proof (cases "P a")
    case True
    then have "remove_first P (a # xs) = [] @ xs \<and> a # xs = [] @ a # xs
        \<and> (\<forall>y \<in> set []. \<not> P y) \<and> P a"
      by simp
    then show ?thesis by blast
  next
    case False
    with Cons.prems have "\<exists>x \<in> set xs. P x" by simp
    from Cons.IH [OF this] obtain pre hit post where
      h: "remove_first P xs = pre @ post" "xs = pre @ hit # post"
        "\<forall>y \<in> set pre. \<not> P y" "P hit"
      by blast
    with False have "remove_first P (a # xs) = (a # pre) @ post
        \<and> a # xs = (a # pre) @ hit # post
        \<and> (\<forall>y \<in> set (a # pre). \<not> P y) \<and> P hit"
      by simp
    then show ?thesis by blast
  qed
qed

lemma match_here_literal:
  "CHR ''.'' \<notin> set p \<Longrightarrow> match_here (map atom_of p) s = prefix (map lower p) (map lower s)"
proof (induction p arbitrary: s)
  case Nil
  then show ?case by simp
next
  case (Cons a p)
  then show ?case by (cases s) auto
qed

lemma search_literal:
  "CHR ''.'' \<notin> set p \<Longrightarrow> search (map atom_of p) s = sublist (map lower p) (map lower s)"
proof (induction s)
  case Nil
  then show ?case by (cases p) simp_all
next
  case (Cons c s)
  have "search (map atom_of p) (c # s)
      = (match_here (map atom_of p) (c # s) \<or> search (map atom_of p) s)"
    by simp
  also have "\<dots> = (prefix (map lower p) (map lower (c # s))
      \<or> sublist (map lower p) (map lower s))"
    by (simp only: match_here_literal [OF Cons.prems] Cons.IH [OF Cons.prems])
  also have "\<dots> = sublist (map lower p) (map lower (c # s))"
    by (simp add: sublist_Cons_right)
  finally show ?case .
qed

lemma delete_task_str:
  assumes "map_of kvs ''title'' = Some (JStr K)" "compile_regex (regex_ext e) K = Some m"
  shows "handle_delete_task e (JObj kvs) w =
     (if \<exists>t \<in> set (tasks w). regex_matches m (t_title t)
      then (Inr (''Deleted task matching '' @ [CHR 0x27] @ K @ [CHR 0x27] @ ''.''),
            w\<lparr>tasks := remove_first (\<lambda>t. regex_matches m (t_title t)) (tasks w)\<rparr>)
      else (Inr (''Couldn't find a task matching '' @ [CHR 0x27] @ K @ [CHR 0x27] @ ''.''), w))"
  using assms
  by (simp add: handle_delete_task_def thn_def lift_def ret_def tasks_delete_one_def)

lemma delete_task_rejected:
  assumes "map_of kvs ''title'' = Some (JStr K)" "compile_regex (regex_ext e) K = None"
  shows "handle_delete_task e (JObj kvs) w = (Inl OperationFailure, w)"
  using assms
  by (simp add: handle_delete_task_def thn_def lift_def ret_def tasks_delete_one_def)

lemma lower_chars:
  "lower CHR ''a'' = CHR ''a''" "lower CHR ''b'' = CHR ''b''" "lower CHR ''c'' = CHR ''c''"
  "lower CHR ''u'' = CHR ''u''" "lower CHR ''y'' = CHR ''y''" "lower CHR ''i'' = CHR ''i''"
  "lower CHR ''l'' = CHR ''l''" "lower CHR ''k'' = CHR ''k''" "lower CHR ''e'' = CHR ''e''"
  "lower CHR ''m'' = CHR ''m''" "lower CHR ''B'' = CHR ''b''" "lower CHR ''M'' = CHR ''m''"
  "lower CHR ''T'' = CHR ''t''" "lower CHR '' '' = CHR '' ''" "lower CHR ''.'' = CHR ''.''"
  "lower CHR ''('' = CHR ''(''"
  by code_simp+

lemma compile_milk:
  "compile_regex ext ''milk'' = Some (search (map atom_of ''milk''))"
  by (simp add: compile_regex_def plain_pattern_def regex_meta_def)


text \<open>
  Claim C4, refuted as stated. The title is a regular expression for the store,
  not a keyword: with the title \<^verbatim>\<open>a.c\<close>, which no task title of the example
  store contains, \<^verbatim>\<open>handle_delete_task\<close> deletes the task \<^verbatim>\<open>abc\<close>.
\<close>

theorem delete_task_regex_counterexample:
  "map t_title (tasks ex_world) = [JStr ''abc'', JStr ''Buy Milk'']
   \<and> \<not> sublist (map lower ''a.c'') (map lower ''abc'')
   \<and> \<not> sublist (map lower ''a.c'') (map lower ''Buy Milk'')
   \<and> handle_delete_task (ex_env (Raises ConnectError) 0) (JObj [(''title'', JStr ''a.c'')])
        ex_world
       = (Inr (''Deleted task matching '' @ [CHR 0x27] @ ''a.c'' @ [CHR 0x27] @ ''.''),
          ex_world\<lparr>tasks := [\<lparr>t_id = 1, t_title = JStr ''Buy Milk'', t_due = Some JNull,
                                 t_completed = False\<rparr>]\<rparr>)"
proof (intro conjI)
  show "map t_title (tasks ex_world) = [JStr ''abc'', JStr ''Buy Milk'']"
    by (simp add: ex_world_def)
  show "\<not> sublist (map lower ''a.c'') (map lower ''abc'')"
    by (simp add: lower_chars sublist_Cons_right prefix_Cons)
  show "\<not> sublist (map lower ''a.c'') (map lower ''Buy Milk'')"
    by (simp add: lower_chars sublist_Cons_right prefix_Cons)
  have c: "compile_regex (regex_ext (ex_env (Raises ConnectError) 0)) ''a.c''
      = Some (search [Lit CHR ''a'', AnyChar, Lit CHR ''c''])"
    by (simp add: compile_regex_def plain_pattern_def regex_meta_def)
  have m: "map_of [(''title'', JStr ''a.c'')] ''title'' = Some (JStr ''a.c'')"
    by simp
  show "handle_delete_task (ex_env (Raises ConnectError) 0) (JObj [(''title'', JStr ''a.c'')])
        ex_world
       = (Inr (''Deleted task matching '' @ [CHR 0x27] @ ''a.c'' @ [CHR 0x27] @ ''.''),
          ex_world\<lparr>tasks := [\<lparr>t_id = 1, t_title = JStr ''Buy Milk'', t_due = Some JNull,
                                 t_completed = False\<rparr>]\<rparr>)"
    unfolding delete_task_str [OF m c]
    by (simp add: ex_world_def lower_def)
qed


text \<open>
  Claim C4, amended. For every string title that the store accepts as a
  pattern, \<^verbatim>\<open>handle_delete_task\<close> removes exactly one task, the first in store
  order whose title matches the pattern in a case-insensitive search, and
  replies "Deleted task matching ..."; when no title matches it removes none and
  replies "Couldn't find a task matching ..."; the two replies differ. For a
  title of plain characters (ASCII, no metacharacter) a string title matches
  exactly when it contains the title argument as a case-insensitive substring.
\<close>

theorem delete_task_regex:
  "(\<forall>e kvs K m w.
       map_of kvs ''title'' = Some (JStr K) \<and> compile_regex (regex_ext e) K = Some m
       \<longrightarrow> ((\<exists>t \<in> set (tasks w). regex_matches m (t_title t)) \<longrightarrow>
              (\<exists>ys t zs. tasks w = ys @ t # zs \<and> regex_matches m (t_title t)
                 \<and> (\<forall>u \<in> set ys. \<not> regex_matches m (t_title u))
                 \<and> handle_delete_task e (JObj kvs) w
                     = (Inr (''Deleted task matching '' @ [CHR 0x27] @ K @ [CHR 0x27] @ ''.''),
                        w\<lparr>tasks := ys @ zs\<rparr>)))
           \<and> ((\<forall>t \<in> set (tasks w). \<not> regex_matches m (t_title t)) \<longrightarrow>
                handle_delete_task e (JObj kvs) w
                  = (Inr (''Couldn't find a task matching '' @ [CHR 0x27] @ K @ [CHR 0x27]
                          @ ''.''), w))
           \<and> ''Deleted task matching '' @ [CHR 0x27] @ K @ [CHR 0x27] @ ''.''
              \<noteq> ''Couldn't find a task matching '' @ [CHR 0x27] @ K @ [CHR 0x27] @ ''.'')
   \<and> (\<forall>ext K. plain_pattern K \<and> CHR ''.'' \<notin> set K \<longrightarrow>
         (\<exists>m. compile_regex ext K = Some m
            \<and> (\<forall>s. regex_matches m (JStr s) = sublist (map lower K) (map lower s))))"
proof (intro conjI allI impI)
  fix e :: env and kvs K m and w :: world
  assume a: "map_of kvs ''title'' = Some (JStr K) \<and> compile_regex (regex_ext e) K = Some m"
  then have d: "handle_delete_task e (JObj kvs) w =
     (if \<exists>t \<in> set (tasks w). regex_matches m (t_title t)
      then (Inr (''Deleted task matching '' @ [CHR 0x27] @ K @ [CHR 0x27] @ ''.''),
            w\<lparr>tasks := remove_first (\<lambda>t. regex_matches m (t_title t)) (tasks w)\<rparr>)
      else (Inr (''Couldn't find a task matching '' @ [CHR 0x27] @ K @ [CHR 0x27] @ ''.''), w))"
    using delete_task_str [of kvs K e m w] by simp
  show "''Deleted task matching '' @ [CHR 0x27] @ K @ [CHR 0x27] @ ''.''
              \<noteq> ''Couldn't find a task matching '' @ [CHR 0x27] @ K @ [CHR 0x27] @ ''.''"
    by simp
  {
    assume ex: "\<exists>t \<in> set (tasks w). regex_matches m (t_title t)"
    from remove_first_split [OF ex] obtain ys t zs where
      h: "tasks w = ys @ t # zs" "regex_matches m (t_title t)"
        "\<forall>u \<in> set ys. \<not> regex_matches m (t_title u)"
        "remove_first (\<lambda>t. regex_matches m (t_title t)) (tasks w) = ys @ zs"
      by blast
    from ex h(4) have "handle_delete_task e (JObj kvs) w
        = (Inr (''Deleted task matching '' @ [CHR 0x27] @ K @ [CHR 0x27] @ ''.''),
           w\<lparr>tasks := ys @ zs\<rparr>)"
      by (simp only: d if_True)
    with h(1-3) show "\<exists>ys t zs. tasks w = ys @ t # zs \<and> regex_matches m (t_title t)
                 \<and> (\<forall>u \<in> set ys. \<not> regex_matches m (t_title u))
                 \<and> handle_delete_task e (JObj kvs) w
                     = (Inr (''Deleted task matching '' @ [CHR 0x27] @ K @ [CHR 0x27] @ ''.''),
                        w\<lparr>tasks := ys @ zs\<rparr>)"
      by blast
  }
  {
    assume "\<forall>t \<in> set (tasks w). \<not> regex_matches m (t_title t)"
    then show "handle_delete_task e (JObj kvs) w
                  = (Inr (''Couldn't find a task matching '' @ [CHR 0x27] @ K @ [CHR 0x27]
                          @ ''.''), w)"
      by (simp add: d)
  }
next
  fix ext K
  assume "plain_pattern K \<and> CHR ''.'' \<notin> set K"
  then have "compile_regex ext K = Some (search (map atom_of K))
      \<and> (\<forall>s. regex_matches (search (map atom_of K)) (JStr s)
                = sublist (map lower K) (map lower s))"
    by (simp add: compile_regex_def search_literal)
  then show "\<exists>m. compile_regex ext K = Some m
            \<and> (\<forall>s. regex_matches m (JStr s) = sublist (map lower K) (map lower s))"
    by blast
qed

theorem delete_task_regex_witness:
  "map_of [(''title'', JStr ''milk'')] ''title'' = Some (JStr ''milk'')
   \<and> compile_regex (regex_ext (ex_env (Raises ConnectError) 0)) ''milk''
       = Some (search (map atom_of ''milk''))
   \<and> (\<exists>t \<in> set (tasks ex_world). regex_matches (search (map atom_of ''milk'')) (t_title t))
   \<and> (\<exists>ys t zs. tasks ex_world = ys @ t # zs
         \<and> regex_matches (search (map atom_of ''milk'')) (t_title t)
         \<and> (\<forall>u \<in> set ys. \<not> regex_matches (search (map atom_of ''milk'')) (t_title u))
         \<and> handle_delete_task (ex_env (Raises ConnectError) 0) (JObj [(''title'', JStr ''milk'')])
              ex_world
             = (Inr (''Deleted task matching '' @ [CHR 0x27] @ ''milk'' @ [CHR 0x27] @ ''.''),
                ex_world\<lparr>tasks := ys @ zs\<rparr>))
   \<and> plain_pattern ''milk'' \<and> CHR ''.'' \<notin> set ''milk''
   \<and> (\<exists>m. compile_regex (regex_ext (ex_env (Raises ConnectError) 0)) ''milk'' = Some m
         \<and> (\<forall>s. regex_matches m (JStr s) = sublist (map lower ''milk'') (map lower s)))"
proof -
  let ?e = "ex_env (Raises ConnectError) 0"
  let ?m = "search (map atom_of ''milk'')"
  note t = delete_task_regex
  have h: "map_of [(''title'', JStr ''milk'')] ''title'' = Some (JStr ''milk'')
      \<and> compile_regex (regex_ext ?e) ''milk'' = Some ?m"
    by (simp add: compile_milk)
  have "regex_matches ?m (JStr ''Buy Milk'')"
    by (simp add: search_literal lower_chars sublist_Cons_right prefix_Cons)
  then have x: "\<exists>t \<in> set (tasks ex_world). regex_matches ?m (t_title t)"
    by (simp add: ex_world_def)
  have p: "plain_pattern ''milk'' \<and> CHR ''.'' \<notin> set ''milk''"
    by (simp add: plain_pattern_def regex_meta_def)
  from h x p
    t [THEN conjunct1, rule_format, OF h, THEN conjunct1, rule_format, OF x]
    t [THEN conjunct2, rule_format, OF p, of "regex_ext ?e"]
  show ?thesis
    by (intro conjI) (assumption | erule conjunct1 | erule conjunct2)+
qed


text \<open>
  Claim C7, refuted as stated. With the keyword \<^verbatim>\<open>(\<close>, which no task title of
  the example store contains, the store rejects the query and
  \<^verbatim>\<open>handle_delete_task\<close> raises instead of replying.
\<close>

theorem delete_task_absent_counterexample:
  "map t_title (tasks ex_world) = [JStr ''abc'', JStr ''Buy Milk'']
   \<and> \<not> sublist (map lower ''('') (map lower ''abc'')
   \<and> \<not> sublist (map lower ''('') (map lower ''Buy Milk'')
   \<and> handle_delete_task (ex_env (Raises ConnectError) 0) (JObj [(''title'', JStr ''('')])
        ex_world
       = (Inl OperationFailure, ex_world)"
proof (intro conjI)
  show "map t_title (tasks ex_world) = [JStr ''abc'', JStr ''Buy Milk'']"
    by (simp add: ex_world_def)
  show "\<not> sublist (map lower ''('') (map lower ''abc'')"
    by (simp add: lower_chars sublist_Cons_right prefix_Cons)
  show "\<not> sublist (map lower ''('') (map lower ''Buy Milk'')"
    by (simp add: lower_chars sublist_Cons_right prefix_Cons)
  have c: "compile_regex (regex_ext (ex_env (Raises ConnectError) 0)) ''('' = None"
    by (simp add: compile_regex_def plain_pattern_def regex_meta_def unclosed_group_def)
  have m: "map_of [(''title'', JStr ''('')] ''title'' = Some (JStr ''('')"
    by simp
  show "handle_delete_task (ex_env (Raises ConnectError) 0) (JObj [(''title'', JStr ''('')])
        ex_world
       = (Inl OperationFailure, ex_world)"
    by (rule delete_task_rejected [OF m c])
qed


text \<open>
  Claim C7, amended. For every string keyword that the store accepts as a
  pattern and every store in which no task title matches it,
  \<^verbatim>\<open>handle_delete_task\<close> replies "Couldn't find a task matching ..." and leaves
  the world, and with it the result of \<^verbatim>\<open>get_tasks\<close>, unchanged. This holds in
  particular for a keyword of plain characters that no title contains as a
  case-insensitive substring.
\<close>

theorem delete_task_absent:
  "(\<forall>e kvs K m w.
       map_of kvs ''title'' = Some (JStr K) \<and> compile_regex (regex_ext e) K = Some m
       \<and> (\<forall>t \<in> set (tasks w). \<not> regex_matches m (t_title t))
       \<longrightarrow> handle_delete_task e (JObj kvs) w
             = (Inr (''Couldn't find a task matching '' @ [CHR 0x27] @ K @ [CHR 0x27] @ ''.''), w)
           \<and> get_tasks (snd (handle_delete_task e (JObj kvs) w)) = get_tasks w)
   \<and> (\<forall>e kvs K w.
         map_of kvs ''title'' = Some (JStr K) \<and> plain_pattern K \<and> CHR ''.'' \<notin> set K
         \<and> (\<forall>t \<in> set (tasks w).
               \<exists>s. t_title t = JStr s \<and> \<not> sublist (map lower K) (map lower s))
         \<longrightarrow> handle_delete_task e (JObj kvs) w
               = (Inr (''Couldn't find a task matching '' @ [CHR 0x27] @ K @ [CHR 0x27]
                       @ ''.''), w))"
proof (intro conjI allI impI)
  fix e :: env and kvs K m and w :: world
  assume a: "map_of kvs ''title'' = Some (JStr K) \<and> compile_regex (regex_ext e) K = Some m
       \<and> (\<forall>t \<in> set (tasks w). \<not> regex_matches m (t_title t))"
  then show d: "handle_delete_task e (JObj kvs) w
             = (Inr (''Couldn't find a task matching '' @ [CHR 0x27] @ K @ [CHR 0x27] @ ''.''), w)"
    using delete_task_str [of kvs K e m w] by simp
  show "get_tasks (snd (handle_delete_task e (JObj kvs) w)) = get_tasks w"
    by (simp only: d snd_conv)
next
  fix e :: env and kvs K and w :: world
  assume a: "map_of kvs ''title'' = Some (JStr K) \<and> plain_pattern K \<and> CHR ''.'' \<notin> set K
         \<and> (\<forall>t \<in> set (tasks w).
               \<exists>s. t_title t = JStr s \<and> \<not> sublist (map lower K) (map lower s))"
  let ?m = "search (map atom_of K)"
  from a have c: "compile_regex (regex_ext e) K = Some ?m"
    by (simp add: compile_regex_def)
  have "\<forall>t \<in> set (tasks w). \<not> regex_matches ?m (t_title t)"
  proof
    fix t assume "t \<in> set (tasks w)"
    with a obtain s where "t_title t = JStr s" "\<not> sublist (map lower K) (map lower s)"
      by blast
    with a show "\<not> regex_matches ?m (t_title t)"
      by (simp add: search_literal)
  qed
  with a c show "handle_delete_task e (JObj kvs) w
               = (Inr (''Couldn't find a task matching '' @ [CHR 0x27] @ K @ [CHR 0x27]
                       @ ''.''), w)"
    using delete_task_str [of kvs K e ?m w] by simp
qed

theorem delete_task_absent_witness:
  "map_of [(''title'', JStr ''Tea'')] ''title'' = Some (JStr ''Tea'')
   \<and> plain_pattern ''Tea'' \<and> CHR ''.'' \<notin> set ''Tea''
   \<and> map t_title (tasks ex_world) = [JStr ''abc'', JStr ''Buy Milk'']
   \<and> \<not> sublist (map lower ''Tea'') (map lower ''abc'')
   \<and> \<not> sublist (map lower ''Tea'') (map lower ''Buy Milk'')
   \<and> handle_delete_task (ex_env (Raises ConnectError) 0) (JObj [(''title'', JStr ''Tea'')])
        ex_world
       = (Inr (''Couldn't find a task matching '' @ [CHR 0x27] @ ''Tea'' @ [CHR 0x27] @ ''.''),
          ex_world)"
proof -
  have n: "\<not> sublist (map lower ''Tea'') (map lower ''abc'')"
    "\<not> sublist (map lower ''Tea'') (map lower ''Buy Milk'')"
    by (simp_all add: lower_chars sublist_Cons_right prefix_Cons)
  have m: "map t_title (tasks ex_world) = [JStr ''abc'', JStr ''Buy Milk'']"
    by (simp add: ex_world_def)
  have p: "map_of [(''title'', JStr ''Tea'')] ''title'' = Some (JStr ''Tea'')"
    "plain_pattern ''Tea''" "CHR ''.'' \<notin> set ''Tea''"
    by (simp_all add: plain_pattern_def regex_meta_def)
  have q: "\<forall>t \<in> set (tasks ex_world).
         \<exists>s. t_title t = JStr s \<and> \<not> sublist (map lower ''Tea'') (map lower s)"
    using n by (simp add: ex_world_def)
  have h: "map_of [(''title'', JStr ''Tea'')] ''title'' = Some (JStr ''Tea'')
      \<and> plain_pattern ''Tea'' \<and> CHR ''.'' \<notin> set ''Tea''
      \<and> (\<forall>t \<in> set (tasks ex_world).
         \<exists>s. t_title t = JStr s \<and> \<not> sublist (map lower ''Tea'') (map lower s))"
    using p q by (intro conjI)
  from p m n delete_task_absent [THEN conjunct2, rule_format, OF h,
      of "ex_env (Raises ConnectError) 0"]
  show ?thesis
    by (intro conjI)
qed

end
